theory Spec2Isabelle
  imports Complex_Main
begin

section \<open>Python values\<close>

text \<open>
  The orchestrator of \<^verbatim>\<open>super_orchestrator cl.py\<close> passes JSON-like values between its
  phases: request parameters, phase outputs and collaborator results are dicts with
  string keys, lists, strings, numbers, booleans and \<^verbatim>\<open>None\<close>. A dict is an association
  list in insertion order; a Python float is a real number.

  A Python string is a sequence of code points. Every string literal that the
  orchestrator puts into a result lies in Latin-1, so a code point is a \<^typ>\<open>char\<close>;
  the accented letters are written by their code. The emoji that open the progress
  messages lie outside of Latin-1: each progress message below is the source's text
  after its emoji and the blank that follows it.
\<close>

datatype pyval =
    PNone
  | PBool bool
  | PInt int
  | PFloat real
  | PStr string
  | PList "pyval list"
  | PDict "(string \<times> pyval) list"

abbreviation quote :: char where "quote \<equiv> CHR 0x27"
abbreviation a_acute :: char where "a_acute \<equiv> CHR 0xE1"
abbreviation a_tilde :: char where "a_tilde \<equiv> CHR 0xE3"
abbreviation c_cedilla :: char where "c_cedilla \<equiv> CHR 0xE7"
abbreviation e_acute :: char where "e_acute \<equiv> CHR 0xE9"
abbreviation e_circ :: char where "e_circ \<equiv> CHR 0xEA"
abbreviation i_acute :: char where "i_acute \<equiv> CHR 0xED"
abbreviation o_acute :: char where "o_acute \<equiv> CHR 0xF3"
abbreviation o_tilde :: char where "o_tilde \<equiv> CHR 0xF5"

text \<open>Truthiness, as \<^verbatim>\<open>if x:\<close>, \<^verbatim>\<open>not x\<close>, \<^verbatim>\<open>x or y\<close> and \<^verbatim>\<open>bool(x)\<close> read it.\<close>

fun truthy :: "pyval \<Rightarrow> bool" where
  "truthy PNone = False"
| "truthy (PBool b) = b"
| "truthy (PInt i) = (i \<noteq> 0)"
| "truthy (PFloat x) = (x \<noteq> 0)"
| "truthy (PStr s) = (s \<noteq> [])"
| "truthy (PList xs) = (xs \<noteq> [])"
| "truthy (PDict kvs) = (kvs \<noteq> [])"

definition py_or :: "pyval \<Rightarrow> pyval \<Rightarrow> pyval" where
  "py_or x y = (if truthy x then x else y)"

fun type_name :: "pyval \<Rightarrow> string" where
  "type_name PNone = ''NoneType''"
| "type_name (PBool b) = ''bool''"
| "type_name (PInt i) = ''int''"
| "type_name (PFloat x) = ''float''"
| "type_name (PStr s) = ''str''"
| "type_name (PList xs) = ''list''"
| "type_name (PDict kvs) = ''dict''"

section \<open>Exceptions, effects and collaborators\<close>

text \<open>
  An exception is a value. \<open>AttributeError\<close>, \<open>TypeError\<close> and \<open>KeyError\<close> are what the
  orchestrator's own expressions raise (\<^verbatim>\<open>x.get(...)\<close> on a value that is no dict,
  \<^verbatim>\<open>len(x)\<close> on a value with no length, \<^verbatim>\<open>d[k]\<close> for a missing key); \<open>OtherError\<close> is any
  other \<^verbatim>\<open>Exception\<close> that a collaborator or the progress callback raises. Each carries its message, which \<^verbatim>\<open>str(e)\<close> returns.
  Exceptions outside of \<^verbatim>\<open>Exception\<close> (\<^verbatim>\<open>KeyboardInterrupt\<close>, \<^verbatim>\<open>SystemExit\<close>), which no
  \<^verbatim>\<open>except Exception\<close> catches, are not modelled.
\<close>

datatype exn = AttributeError string | TypeError string | KeyError string | OtherError string

fun exn_str :: "exn \<Rightarrow> string" where
  "exn_str (AttributeError m) = m"
| "exn_str (TypeError m) = m"
| "exn_str (KeyError m) = [quote] @ m @ [quote]"
| "exn_str (OtherError m) = m"

text \<open>
  What a run does beyond computing its result is recorded as a list of events: each
  invocation of the progress callback (with its arguments) and each invocation of a
  collaborator's operation (the collaborator's key and the operation's name).
\<close>

datatype event = Progress nat string | Invoke string string

text \<open>
  A computation yields the events it caused and either an exception or a value.
\<close>

type_synonym 'a io = "event list \<times> (exn + 'a)"

definition io_return :: "'a \<Rightarrow> 'a io" where
  "io_return x = ([], Inr x)"

definition io_raise :: "exn \<Rightarrow> 'a io" where
  "io_raise e = ([], Inl e)"

definition io_bind :: "'a io \<Rightarrow> ('a \<Rightarrow> 'b io) \<Rightarrow> 'b io" where
  "io_bind m f =
     (case m of
        (l, Inl e) \<Rightarrow> (l, Inl e)
      | (l, Inr x) \<Rightarrow> (case f x of (l', r) \<Rightarrow> (l @ l', r)))"

text \<open>\<^verbatim>\<open>try: m  except Exception as e: h e\<close>\<close>

definition io_try :: "'a io \<Rightarrow> (exn \<Rightarrow> 'a io) \<Rightarrow> 'a io" where
  "io_try m h =
     (case m of
        (l, Inl e) \<Rightarrow> (case h e of (l', r) \<Rightarrow> (l @ l', r))
      | (l, Inr x) \<Rightarrow> (l, Inr x))"

text \<open>
  The \<^verbatim>\<open>try\<close> that spans a whole phase: its handler returns a value, so the phase as a
  whole yields events and a value, never an exception.
\<close>

definition io_catch :: "'a io \<Rightarrow> (exn \<Rightarrow> 'a) \<Rightarrow> event list \<times> 'a" where
  "io_catch m h = (case m of (l, Inl e) \<Rightarrow> (l, h e) | (l, Inr x) \<Rightarrow> (l, x))"

definition io_total :: "event list \<times> 'a \<Rightarrow> 'a io" where
  "io_total p = (fst p, Inr (snd p))"

text \<open>The operations on values that the orchestrator uses, with their failures.\<close>

definition no_attribute :: "string \<Rightarrow> string \<Rightarrow> exn" where
  "no_attribute cls attr =
     AttributeError ([quote] @ cls @ [quote] @ '' object has no attribute '' @ [quote] @ attr @ [quote])"

text \<open>\<^verbatim>\<open>d.get(k, default)\<close>; \<^verbatim>\<open>d.get(k)\<close> is \<^verbatim>\<open>d.get(k, None)\<close>.\<close>

fun py_get :: "pyval \<Rightarrow> string \<Rightarrow> pyval \<Rightarrow> pyval io" where
  "py_get (PDict kvs) k d = io_return (case map_of kvs k of None \<Rightarrow> d | Some v \<Rightarrow> v)"
| "py_get v k d = io_raise (no_attribute (type_name v) ''get'')"

fun py_len :: "pyval \<Rightarrow> pyval io" where
  "py_len (PStr s) = io_return (PInt (int (length s)))"
| "py_len (PList xs) = io_return (PInt (int (length xs)))"
| "py_len (PDict kvs) = io_return (PInt (int (length kvs)))"
| "py_len v = io_raise (TypeError (''object of type '' @ [quote] @ type_name v @ [quote] @ '' has no len()''))"

text \<open>\<^verbatim>\<open>list(d.keys())\<close>\<close>

fun py_keys :: "pyval \<Rightarrow> pyval io" where
  "py_keys (PDict kvs) = io_return (PList (map (\<lambda>kv. PStr (fst kv)) kvs))"
| "py_keys v = io_raise (no_attribute (type_name v) ''keys'')"

text \<open>The elements that \<^verbatim>\<open>for x in v\<close> visits.\<close>

fun py_iter :: "pyval \<Rightarrow> pyval list io" where
  "py_iter (PList xs) = io_return xs"
| "py_iter (PDict kvs) = io_return (map (\<lambda>kv. PStr (fst kv)) kvs)"
| "py_iter (PStr s) = io_return (map (\<lambda>c. PStr [c]) s)"
| "py_iter v = io_raise (TypeError ([quote] @ type_name v @ [quote] @ '' object is not iterable''))"

text \<open>
  A collaborator is an object of some class with operations; an operation takes its
  arguments (keyword arguments in the order the call writes them) and returns a value
  or raises. \<open>methods svc name = None\<close> is \<^verbatim>\<open>not hasattr(svc, name)\<close>. A collaborator
  in the services map is truthy, as an object that defines neither \<^verbatim>\<open>__bool__\<close> nor
  \<^verbatim>\<open>__len__\<close> is, and an operation is a function of its arguments.
\<close>

type_synonym operation = "pyval list \<Rightarrow> exn + pyval"

record service =
  class_name :: string
  methods :: "string \<rightharpoonup> operation"

text \<open>\<^verbatim>\<open>svc.name(args)\<close> for the collaborator stored under \<open>key\<close>.\<close>

definition call_method :: "string \<Rightarrow> service \<Rightarrow> string \<Rightarrow> pyval list \<Rightarrow> pyval io" where
  "call_method key svc name args =
     (case methods svc name of
        None \<Rightarrow> io_raise (no_attribute (class_name svc) name)
      | Some f \<Rightarrow> ([Invoke key name], f args))"

text \<open>
  What the orchestrator reads from outside of its own state: the module-level
  \<^verbatim>\<open>enhanced_search_coordinator\<close> (\<open>None\<close> when its import failed), the clock
  (\<^verbatim>\<open>time.time()\<close> at the start and at the end of a run, \<^verbatim>\<open>datetime.now().isoformat()\<close>
  when the report is built), and two formatting functions of Python that are taken as
  parameters: \<^verbatim>\<open>str(v)\<close> of a value that is not a string, inside an f-string, and
  \<^verbatim>\<open>format(x, '.0f')\<close>.
\<close>

record env =
  enhanced_search_coordinator :: "service option"
  time_start :: real
  time_end :: real
  isoformat_now :: string
  str_other :: "pyval \<Rightarrow> string"
  format_0f :: "real \<Rightarrow> string"

definition py_str :: "env \<Rightarrow> pyval \<Rightarrow> string" where
  "py_str env v = (case v of PStr s \<Rightarrow> s | _ \<Rightarrow> str_other env v)"

section \<open>The orchestrator's state\<close>

text \<open>
  A session's entry of \<^verbatim>\<open>execution_state\<close> with the keys that the run gives it;
  \<open>execution_time\<close> is \<open>None\<close> until the run sets the key. Of the orchestrator's attributes,
  \<^verbatim>\<open>service_status\<close> (never read or written after \<^verbatim>\<open>__init__\<close>) and \<^verbatim>\<open>sync_lock\<close> are
  left out.
\<close>

record session_state =
  status :: string
  start_time :: real
  components_completed :: "string list"
  errors :: "string list"
  recursion_prevented :: int
  real_data_only :: bool
  execution_time :: "real option"

record orchestrator =
  services :: "string \<rightharpoonup> service"
  execution_state :: "string \<rightharpoonup> session_state"
  global_recursion_depth :: "string \<rightharpoonup> int"
  max_recursion_depth :: int

text \<open>
  \<^verbatim>\<open>SuperOrchestrator.__init__\<close>: \<open>imported\<close> maps the name of each module-level import
  that succeeded (and is truthy) to the collaborator it yields, for a class the
  instance that calling it constructs.
\<close>

definition register :: "(string \<rightharpoonup> service) \<Rightarrow> string \<Rightarrow> string \<Rightarrow> (string \<rightharpoonup> service) \<Rightarrow> (string \<rightharpoonup> service)" where
  "register imported name key m = (case imported name of None \<Rightarrow> m | Some svc \<Rightarrow> m(key \<mapsto> svc))"

definition init :: "(string \<rightharpoonup> service) \<Rightarrow> orchestrator" where
  "init imported =
     \<lparr> services =
         (register imported ''EnhancedReportGenerator'' ''enhanced_report''
         (register imported ''AlibabaWebSailorAgent'' ''websailor''
         (register imported ''mcp_supadata_manager'' ''supadata''
         (register imported ''FuturePredictionEngine'' ''future_prediction''
         (register imported ''PrePitchArchitect'' ''pre_pitch''
         (register imported ''AntiObjectionSystem'' ''anti_objection''
         (register imported ''visual_proofs_generator'' ''visual_proofs''
         (register imported ''mental_drivers_architect'' ''mental_drivers''
         (register imported ''content_extractor'' ''content_extractor''
         (register imported ''ai_manager'' ''ai_manager'' Map.empty)))))))))),
       execution_state = Map.empty,
       global_recursion_depth = Map.empty,
       max_recursion_depth = 3 \<rparr>"

section \<open>The analysis phases\<close>

text \<open>
  Each phase is the body of its \<^verbatim>\<open>try\<close> under \<open>io_catch\<close> with the value its
  \<^verbatim>\<open>except Exception\<close> returns. Logging is left out.
\<close>

subsection \<open>Phase 1: web research\<close>

definition web_query :: "env \<Rightarrow> pyval \<Rightarrow> pyval io" where
  "web_query env data =
     io_bind (py_get data ''query'' PNone) (\<lambda>q.
       if truthy q then io_return q
       else
         io_bind (py_get data ''segmento'' (PStr [])) (\<lambda>s.
         io_bind (py_get data ''produto'' (PStr [])) (\<lambda>p.
         io_return (PStr (''mercado '' @ py_str env s @ '' '' @ py_str env p @ '' Brasil 2024'')))))"

text \<open>The two search steps yield \<open>Some r\<close> where the source returns \<open>r\<close> from the phase.\<close>

definition web_search_websailor :: "orchestrator \<Rightarrow> pyval \<Rightarrow> pyval \<Rightarrow> string \<Rightarrow> pyval option io" where
  "web_search_websailor st query data session_id =
     (case services st ''websailor'' of
        None \<Rightarrow> io_return None
      | Some svc \<Rightarrow>
          io_try
            (io_bind (call_method ''websailor'' svc ''navigate_and_research_deep''
                        [query, data, PInt 20, PInt 3, PStr session_id]) (\<lambda>websailor_results.
               if truthy websailor_results then
                 io_bind (py_get websailor_results ''status'' PNone) (\<lambda>s.
                 io_return (if s = PStr ''success'' then Some websailor_results else None))
               else io_return None))
            (\<lambda>e. io_return None))"

definition web_search_enhanced :: "env \<Rightarrow> pyval \<Rightarrow> string \<Rightarrow> pyval option io" where
  "web_search_enhanced env query session_id =
     (case enhanced_search_coordinator env of
        None \<Rightarrow> io_return None
      | Some svc \<Rightarrow>
          io_try
            (io_bind (call_method ''enhanced_search_coordinator'' svc ''perform_search''
                        [query, PStr session_id]) (\<lambda>search_results.
               io_return
                 (if truthy search_results then
                    Some (PDict [(''status'', PStr ''success''),
                                 (''processed_results'', search_results),
                                 (''source'', PStr ''enhanced_search'')])
                  else None)))
            (\<lambda>e. io_return None))"

definition execute_real_web_search :: "orchestrator \<Rightarrow> env \<Rightarrow> pyval \<Rightarrow> string \<Rightarrow> event list \<times> pyval" where
  "execute_real_web_search st env data session_id =
     io_catch
       (io_bind (web_query env data) (\<lambda>query.
        io_bind (web_search_websailor st query data session_id) (\<lambda>r1.
          case r1 of
            Some websailor_results \<Rightarrow> io_return websailor_results
          | None \<Rightarrow>
              io_bind (web_search_enhanced env query session_id) (\<lambda>r2.
                case r2 of
                  Some found \<Rightarrow> io_return found
                | None \<Rightarrow>
                    io_return (PDict [(''status'', PStr ''fallback''),
                                      (''processed_results'', PList []),
                                      (''source'', PStr ''fallback_basic'')])))))
       (\<lambda>e. PDict [(''status'', PStr ''error''),
                    (''processed_results'', PList []),
                    (''error'', PStr (exn_str e))])"

subsection \<open>Phase 2: social analysis\<close>

definition execute_real_social_analysis :: "orchestrator \<Rightarrow> env \<Rightarrow> pyval \<Rightarrow> string \<Rightarrow> event list \<times> pyval" where
  "execute_real_social_analysis st env data session_id =
     io_catch
       (case services st ''supadata'' of
          None \<Rightarrow> io_return (PDict [(''status'', PStr ''unavailable''), (''total_posts'', PInt 0)])
        | Some svc \<Rightarrow>
            io_bind (py_get data ''segmento'' (PStr [])) (\<lambda>s.
            io_bind (py_get data ''produto'' (PStr [])) (\<lambda>p.
            io_bind (call_method ''supadata'' svc ''search_all_platforms''
                       [PStr (py_str env s @ '' '' @ py_str env p), PInt 15]) (\<lambda>social_results.
            io_bind (if truthy social_results
                     then io_bind (py_get social_results ''all_posts'' (PList [])) py_len
                     else io_return (PInt 0)) (\<lambda>total_posts.
            io_return (PDict [(''status'', PStr ''success''),
                              (''platforms_data'', py_or social_results (PDict [])),
                              (''total_posts'', total_posts)]))))))
       (\<lambda>e. PDict [(''status'', PStr ''error''),
                    (''total_posts'', PInt 0),
                    (''error'', PStr (exn_str e))])"

subsection \<open>Phase 3: avatar\<close>

definition execute_real_avatar_analysis :: "env \<Rightarrow> pyval \<Rightarrow> pyval \<Rightarrow> pyval \<Rightarrow> string \<Rightarrow> event list \<times> pyval" where
  "execute_real_avatar_analysis env web_data social_data project_data session_id =
     io_catch
       (io_bind (py_get project_data ''segmento'' (PStr ''Profissional'')) (\<lambda>s.
        io_bind (py_get web_data ''processed_results'' (PList [])) (\<lambda>results.
        io_bind (py_len results) (\<lambda>web_sources.
        io_return
          (PDict [(''status'', PStr ''success''),
                  (''nome_ficticio'', PStr (''Avatar '' @ py_str env s)),
                  (''dores_viscerais_unificadas'',
                     PList [PStr ''Falta de tempo'', PStr ''Dificuldade em decidir'']),
                  (''desejos_secretos_unificados'',
                     PList [PStr ''Reconhecimento'', PStr ''Estabilidade'']),
                  (''objecoes_principais'',
                     PList [PStr (''Pre'' @ c_cedilla # ''o alto''),
                            PStr (''Falta de confian'' @ c_cedilla # ''a'')]),
                  (''fonte_dados'',
                     PDict [(''data_real'', PBool True), (''web_sources'', web_sources)])])))))
       (\<lambda>e. PDict [(''status'', PStr ''error''), (''error'', PStr (exn_str e))])"

subsection \<open>Phase 4: mental drivers\<close>

definition execute_real_mental_drivers :: "orchestrator \<Rightarrow> pyval \<Rightarrow> pyval \<Rightarrow> pyval \<Rightarrow> string \<Rightarrow> event list \<times> pyval" where
  "execute_real_mental_drivers st avatar_data web_data project_data session_id =
     io_catch
       (case services st ''mental_drivers'' of
          None \<Rightarrow> io_return (PDict [(''status'', PStr ''fallback''), (''drivers_customizados'', PList [])])
        | Some svc \<Rightarrow>
            io_bind (py_get project_data ''segmento'' PNone) (\<lambda>s.
            io_bind (py_get project_data ''produto'' PNone) (\<lambda>p.
            io_bind (call_method ''mental_drivers'' svc ''create_complete_mental_drivers_system''
                       [avatar_data,
                        PDict [(''segmento'', s), (''produto'', p), (''session_id'', PStr session_id)]])
              (\<lambda>drivers_system.
            io_return
              (py_or drivers_system
                 (PDict [(''status'', PStr ''fallback''), (''drivers_customizados'', PList [])]))))))
       (\<lambda>e. PDict [(''status'', PStr ''error''),
                    (''drivers_customizados'', PList []),
                    (''error'', PStr (exn_str e))])"

subsection \<open>Phase 5: visual proofs\<close>

definition visual_proofs_methods :: "string list" where
  "visual_proofs_methods =
     [''generate_visual_proofs'', ''create_proofs'', ''generate_proofs'',
      ''create_visual_proofs'', ''build_proofs'']"

text \<open>
  The loop over \<^verbatim>\<open>methods_to_try\<close>; its value is the variable \<^verbatim>\<open>visual_proofs\<close> after the
  loop. The first operation that the collaborator exposes and that returns without
  raising ends the loop (\<^verbatim>\<open>break\<close>), whatever it returned.
\<close>

fun visual_proofs_loop :: "service \<Rightarrow> pyval \<Rightarrow> pyval \<Rightarrow> string \<Rightarrow> string list \<Rightarrow> pyval io" where
  "visual_proofs_loop svc drivers_data project_data session_id [] = io_return PNone"
| "visual_proofs_loop svc drivers_data project_data session_id (method_name # rest) =
     (case methods svc method_name of
        None \<Rightarrow> visual_proofs_loop svc drivers_data project_data session_id rest
      | Some f \<Rightarrow>
          io_bind
            (io_try
               (io_bind (py_get project_data ''segmento'' (PStr [])) (\<lambda>s.
                io_bind (py_get project_data ''produto'' (PStr [])) (\<lambda>p.
                io_bind (call_method ''visual_proofs'' svc method_name
                           [drivers_data, s, p, PStr session_id]) (\<lambda>visual_proofs.
                io_return (Some visual_proofs)))))
               (\<lambda>method_error. io_return None))
            (\<lambda>r. case r of
                    Some visual_proofs \<Rightarrow> io_return visual_proofs
                  | None \<Rightarrow> visual_proofs_loop svc drivers_data project_data session_id rest))"

definition execute_real_visual_proofs :: "orchestrator \<Rightarrow> env \<Rightarrow> pyval \<Rightarrow> pyval \<Rightarrow> string \<Rightarrow> event list \<times> pyval" where
  "execute_real_visual_proofs st env drivers_data project_data session_id =
     io_catch
       (case services st ''visual_proofs'' of
          None \<Rightarrow> io_return (PDict [(''status'', PStr ''fallback''), (''proofs'', PList [])])
        | Some svc \<Rightarrow>
            io_bind (visual_proofs_loop svc drivers_data project_data session_id visual_proofs_methods)
              (\<lambda>visual_proofs.
                if truthy visual_proofs then io_return visual_proofs
                else
                  io_bind (py_get project_data ''segmento'' (PStr ''mercado'')) (\<lambda>s.
                  io_bind (py_get project_data ''produto'' (PStr ''produto'')) (\<lambda>p.
                  io_return
                    (PDict [(''status'', PStr ''fallback''),
                            (''proofs'',
                               PList [PDict [(''tipo'', PStr ''estatistica''),
                                             (''titulo'', PStr (''Dados sobre '' @ py_str env s)),
                                             (''descricao'',
                                                PStr (''An'' @ a_acute # ''lise baseada nos drivers para ''
                                                      @ py_str env p)),
                                             (''fonte'',
                                                PStr (''An'' @ a_acute # ''lise pr'' @ o_acute # ''pria''))]])])))))
       (\<lambda>e. PDict [(''status'', PStr ''error''),
                    (''proofs'', PList []),
                    (''error'', PStr (exn_str e))])"

subsection \<open>Candidate operations with a result check\<close>

text \<open>
  The loop over \<^verbatim>\<open>methods_to_try\<close> that the anti-objection phase and the final report
  share, word for word up to the collaborator and the arguments: an operation that the
  collaborator does not expose is skipped, one that raises or returns a falsy result
  is followed by the next, and the first truthy result is returned from the phase
  (\<open>Some result\<close>). \<open>None\<close> is the end of the loop.
\<close>

fun try_methods :: "string \<Rightarrow> service \<Rightarrow> pyval list \<Rightarrow> string list \<Rightarrow> pyval option io" where
  "try_methods key svc args [] = io_return None"
| "try_methods key svc args (method_name # rest) =
     (case methods svc method_name of
        None \<Rightarrow> try_methods key svc args rest
      | Some f \<Rightarrow>
          io_bind
            (io_try
               (io_bind (call_method key svc method_name args) (\<lambda>result.
                io_return (if truthy result then Some result else None)))
               (\<lambda>method_error. io_return None))
            (\<lambda>r. case r of
                    Some result \<Rightarrow> io_return (Some result)
                  | None \<Rightarrow> try_methods key svc args rest))"

subsection \<open>Phase 6: anti-objection system\<close>

definition anti_objection_methods :: "string list" where
  "anti_objection_methods =
     [''create_anti_objection_system'', ''create_system'', ''generate_system'', ''build_system'',
      ''create_anti_objection'', ''generate_anti_objection_system'', ''process_objections'']"

definition execute_real_anti_objection :: "orchestrator \<Rightarrow> env \<Rightarrow> pyval \<Rightarrow> pyval \<Rightarrow> pyval \<Rightarrow> string \<Rightarrow> event list \<times> pyval" where
  "execute_real_anti_objection st env drivers_data avatar_data data session_id =
     io_catch
       (case services st ''anti_objection'' of
          None \<Rightarrow> io_return (PDict [(''status'', PStr ''fallback''), (''sistema_anti_objecao'', PDict [])])
        | Some svc \<Rightarrow>
            io_bind (py_get data ''produto'' (PStr [])) (\<lambda>p.
            io_bind (try_methods ''anti_objection'' svc
                       [PDict [(''avatar'', avatar_data), (''produto'', p), (''drivers'', drivers_data)]]
                       anti_objection_methods) (\<lambda>r.
              case r of
                Some result \<Rightarrow> io_return result
              | None \<Rightarrow>
                  io_bind (py_get avatar_data ''objecoes_principais''
                             (PList [PStr (''Pre'' @ c_cedilla # ''o alto''),
                                     PStr (''Falta de confian'' @ c_cedilla # ''a'')])) (\<lambda>objections.
                  io_bind (py_iter objections) (\<lambda>objs.
                  io_return
                    (PDict [(''status'', PStr ''fallback''),
                            (''sistema_anti_objecao'',
                               PDict [(''objecoes_mapeadas'', objections),
                                      (''respostas_preparadas'',
                                         PList (map (\<lambda>obj. PStr (''Resposta para: '' @ py_str env obj)) objs)),
                                      (''estrategias'',
                                         PList [PStr (''Demonstra'' @ c_cedilla # a_tilde # ''o de valor''),
                                                PStr ''Prova social'',
                                                PStr ''Garantias''])])]))))))
       (\<lambda>e. PDict [(''status'', PStr ''error''),
                    (''sistema_anti_objecao'', PDict []),
                    (''error'', PStr (exn_str e))])"

subsection \<open>Phases 7 and 8: pre-pitch and future predictions\<close>

definition execute_real_pre_pitch :: "orchestrator \<Rightarrow> pyval \<Rightarrow> pyval \<Rightarrow> pyval \<Rightarrow> string \<Rightarrow> event list \<times> pyval" where
  "execute_real_pre_pitch st drivers_data anti_objection_data project_data session_id =
     io_catch
       (case services st ''pre_pitch'' of
          None \<Rightarrow> io_return (PDict [(''status'', PStr ''fallback''), (''sequencias_pre_pitch'', PList [])])
        | Some svc \<Rightarrow>
            io_bind (call_method ''pre_pitch'' svc ''create_system''
                       [drivers_data, anti_objection_data, project_data]) (\<lambda>result.
            io_return
              (py_or result
                 (PDict [(''status'', PStr ''fallback''), (''sequencias_pre_pitch'', PList [])]))))
       (\<lambda>e. PDict [(''status'', PStr ''error''),
                    (''sequencias_pre_pitch'', PList []),
                    (''error'', PStr (exn_str e))])"

definition execute_real_future_predictions :: "orchestrator \<Rightarrow> pyval \<Rightarrow> pyval \<Rightarrow> string \<Rightarrow> event list \<times> pyval" where
  "execute_real_future_predictions st web_data social_data session_id =
     io_catch
       (case services st ''future_prediction'' of
          None \<Rightarrow> io_return (PDict [(''status'', PStr ''fallback''), (''predicoes'', PList [])])
        | Some svc \<Rightarrow>
            io_bind (call_method ''future_prediction'' svc ''create_predictions''
                       [web_data, social_data, PStr session_id]) (\<lambda>result.
            io_return
              (py_or result (PDict [(''status'', PStr ''fallback''), (''predicoes'', PList [])]))))
       (\<lambda>e. PDict [(''status'', PStr ''error''),
                    (''predicoes'', PList []),
                    (''error'', PStr (exn_str e))])"

subsection \<open>Phases 9 to 12: competition, insights, keywords, sales funnel\<close>

definition execute_real_competition_analysis :: "env \<Rightarrow> pyval \<Rightarrow> pyval \<Rightarrow> string \<Rightarrow> event list \<times> pyval" where
  "execute_real_competition_analysis env web_data project_data session_id =
     io_catch
       (io_bind (py_get project_data ''segmento'' (PStr ''mercado'')) (\<lambda>s.
        io_bind (py_get web_data ''processed_results'' (PList [])) (\<lambda>results.
        io_bind (py_len results) (\<lambda>fontes.
        io_return
          (PDict [(''status'', PStr ''success''),
                  (''analise_completa'',
                     PStr (''An'' @ a_acute # ''lise de concorr'' @ e_circ # ''ncia para '' @ py_str env s)),
                  (''fontes_analisadas'', fontes)])))))
       (\<lambda>e. PDict [(''status'', PStr ''error''), (''error'', PStr (exn_str e))])"

definition execute_real_insights_extraction :: "pyval \<Rightarrow> pyval \<Rightarrow> string \<Rightarrow> event list \<times> pyval" where
  "execute_real_insights_extraction web_data social_data session_id =
     io_catch
       (io_bind (py_get web_data ''processed_results'' (PList [])) (\<lambda>results.
        io_bind (py_len results) (\<lambda>web_sources.
        io_bind (py_get social_data ''total_posts'' (PInt 0)) (\<lambda>social_posts.
        io_return
          (PDict [(''status'', PStr ''success''),
                  (''insights_completos'', PStr ''Insights baseados nos dados coletados''),
                  (''fontes_utilizadas'',
                     PDict [(''web_sources'', web_sources), (''social_posts'', social_posts)])])))))
       (\<lambda>e. PDict [(''status'', PStr ''error''), (''error'', PStr (exn_str e))])"

definition execute_real_keywords_analysis :: "pyval \<Rightarrow> pyval \<Rightarrow> string \<Rightarrow> event list \<times> pyval" where
  "execute_real_keywords_analysis web_data avatar_data session_id =
     io_catch
       (io_bind (py_get web_data ''processed_results'' (PList [])) (\<lambda>results.
        io_bind (py_len results) (\<lambda>analyzed.
        io_bind (py_get avatar_data ''nome_ficticio'' PNone) (\<lambda>nome.
        io_return
          (PDict [(''status'', PStr ''success''),
                  (''analise_completa'',
                     PStr (''Palavras-chave estrat'' @ e_acute # ''gicas identificadas'')),
                  (''fonte_dados'',
                     PDict [(''web_sources_analyzed'', analyzed),
                            (''avatar_included'', PBool (truthy nome))])])))))
       (\<lambda>e. PDict [(''status'', PStr ''error''), (''error'', PStr (exn_str e))])"

definition execute_real_sales_funnel :: "pyval \<Rightarrow> pyval \<Rightarrow> string \<Rightarrow> event list \<times> pyval" where
  "execute_real_sales_funnel drivers_data avatar_data session_id =
     io_catch
       (io_bind (py_get drivers_data ''drivers_customizados'' (PList [])) (\<lambda>drivers.
        io_bind (py_len drivers) (\<lambda>applied.
        io_bind (py_get avatar_data ''nome_ficticio'' PNone) (\<lambda>nome.
        io_return
          (PDict [(''status'', PStr ''success''),
                  (''funil_otimizado'', PStr ''Funil otimizado com base nos dados coletados''),
                  (''dados_base'',
                     PDict [(''drivers_applied'', applied),
                            (''avatar_based'', PBool (truthy nome))])])))))
       (\<lambda>e. PDict [(''status'', PStr ''error''), (''error'', PStr (exn_str e))])"

section \<open>The final report\<close>

definition report_methods :: "string list" where
  "report_methods =
     [''generate_report'', ''create_report'', ''build_report'', ''generate_enhanced_report'',
      ''create_enhanced_report'', ''process_report'', ''compile_report'']"

text \<open>\<^verbatim>\<open>d.get(k1, {}).get(k2, default)\<close>\<close>

definition py_get2 :: "pyval \<Rightarrow> string \<Rightarrow> string \<Rightarrow> pyval \<Rightarrow> pyval io" where
  "py_get2 d k1 k2 dflt = io_bind (py_get d k1 (PDict [])) (\<lambda>inner. py_get inner k2 dflt)"

definition generate_final_report :: "orchestrator \<Rightarrow> env \<Rightarrow> pyval \<Rightarrow> string \<Rightarrow> event list \<times> pyval" where
  "generate_final_report st env complete_analysis_data session_id =
     io_catch
       (io_bind
          (case services st ''enhanced_report'' of
             None \<Rightarrow> io_return None
           | Some svc \<Rightarrow>
               try_methods ''enhanced_report'' svc [complete_analysis_data, PStr session_id] report_methods)
          (\<lambda>r. case r of
                  Some result \<Rightarrow> io_return result
                | None \<Rightarrow>
                    io_bind (py_keys complete_analysis_data) (\<lambda>componentes.
                    io_bind (io_bind (py_get2 complete_analysis_data ''pesquisa_web_massiva''
                                        ''processed_results'' (PList [])) py_len) (\<lambda>web_sources.
                    io_bind (py_get2 complete_analysis_data ''analise_redes_sociais''
                               ''total_posts'' (PInt 0)) (\<lambda>social_posts.
                    io_bind (py_get2 complete_analysis_data ''avatar_ultra_detalhado''
                               ''nome_ficticio'' PNone) (\<lambda>nome.
                    io_bind (io_bind (py_get2 complete_analysis_data ''drivers_mentais_customizados''
                                        ''drivers_customizados'' (PList [])) py_len) (\<lambda>drivers_gerados.
                    io_bind (io_bind (py_get2 complete_analysis_data ''provas_visuais_arsenal''
                                        ''proofs'' (PList [])) py_len) (\<lambda>provas_visuais.
                    io_bind (py_get2 complete_analysis_data ''sistema_anti_objecao''
                               ''sistema_anti_objecao'' PNone) (\<lambda>sistema.
                    io_bind (py_get2 complete_analysis_data ''funil_vendas_otimizado''
                               ''funil_otimizado'' PNone) (\<lambda>funil.
                    io_return
                      (PDict [(''status'', PStr ''basic''),
                              (''session_id'', PStr session_id),
                              (''timestamp'', PStr (isoformat_now env)),
                              (''resumo_executivo'',
                                 PStr (''An'' @ a_acute # ''lise completa finalizada com todos os componentes'')),
                              (''componentes_analisados'', componentes),
                              (''dados_coletados'',
                                 PDict [(''web_sources'', web_sources),
                                        (''social_posts'', social_posts),
                                        (''avatar_criado'', PBool (truthy nome)),
                                        (''drivers_gerados'', drivers_gerados),
                                        (''provas_visuais'', provas_visuais),
                                        (''sistema_anti_objecao'', PBool (truthy sistema)),
                                        (''funil_otimizado'', PBool (truthy funil))]),
                              (''report_generator'', PStr ''basic_fallback_enhanced'')])))))))))))
       (\<lambda>e. PDict [(''status'', PStr ''error''),
                    (''session_id'', PStr session_id),
                    (''timestamp'', PStr (isoformat_now env)),
                    (''error'', PStr (exn_str e)),
                    (''report_generator'', PStr ''error_fallback'')])"

section \<open>The run\<close>

text \<open>
  The progress callback takes the phase index and a message; \<open>Some e\<close> is the exception
  it raises, \<open>None\<close> a normal return. A run is given a callback or none.
\<close>

type_synonym callback = "nat \<Rightarrow> string \<Rightarrow> exn option"

definition notify :: "callback option \<Rightarrow> nat \<Rightarrow> string \<Rightarrow> unit io" where
  "notify progress_callback i msg =
     (case progress_callback of
        None \<Rightarrow> io_return ()
      | Some cb \<Rightarrow> ([Progress i msg], case cb i msg of None \<Rightarrow> Inr () | Some e \<Rightarrow> Inl e))"

text \<open>
  Phases 1 to 13 of \<^verbatim>\<open>execute_synchronized_analysis\<close>, from the first callback to the
  consolidated record \<^verbatim>\<open>complete_analysis_data\<close>.
\<close>

definition run_phases :: "orchestrator \<Rightarrow> env \<Rightarrow> pyval \<Rightarrow> string \<Rightarrow> callback option \<Rightarrow> pyval io" where
  "run_phases st env data session_id progress_callback =
     io_bind (notify progress_callback 1 ''Executando pesquisa web massiva com dados reais...'') (\<lambda>_.
     io_bind (io_total (execute_real_web_search st env data session_id)) (\<lambda>web_research_results.
     io_bind (notify progress_callback 2 ''Analisando redes sociais com dados reais...'') (\<lambda>_.
     io_bind (io_total (execute_real_social_analysis st env data session_id)) (\<lambda>social_analysis_results.
     io_bind (notify progress_callback 3 ''Criando avatar ultra-detalhado com dados reais...'') (\<lambda>_.
     io_bind (io_total (execute_real_avatar_analysis env web_research_results social_analysis_results
                          data session_id)) (\<lambda>avatar_results.
     io_bind (notify progress_callback 4 ''Gerando drivers mentais customizados com dados reais...'') (\<lambda>_.
     io_bind (io_total (execute_real_mental_drivers st avatar_results web_research_results
                          data session_id)) (\<lambda>drivers_results.
     io_bind (notify progress_callback 5 ''Criando provas visuais com dados reais...'') (\<lambda>_.
     io_bind (io_total (execute_real_visual_proofs st env drivers_results data session_id))
       (\<lambda>visual_proofs_results.
     io_bind (notify progress_callback 6
                (''Desenvolvendo sistema anti-obje'' @ c_cedilla # a_tilde # ''o com dados reais...'')) (\<lambda>_.
     io_bind (io_total (execute_real_anti_objection st env drivers_results avatar_results
                          data session_id)) (\<lambda>anti_objection_results.
     io_bind (notify progress_callback 7
                (''Construindo pr'' @ e_acute # ''-pitch invis'' @ i_acute # ''vel com dados reais...'')) (\<lambda>_.
     io_bind (io_total (execute_real_pre_pitch st drivers_results anti_objection_results
                          data session_id)) (\<lambda>pre_pitch_results.
     io_bind (notify progress_callback 8
                (''Gerando predi'' @ c_cedilla # o_tilde # ''es futuras com dados reais...'')) (\<lambda>_.
     io_bind (io_total (execute_real_future_predictions st web_research_results
                          social_analysis_results session_id)) (\<lambda>predictions_results.
     io_bind (notify progress_callback 9
                (''Analisando concorr'' @ e_circ # ''ncia com dados reais...'')) (\<lambda>_.
     io_bind (io_total (execute_real_competition_analysis env web_research_results data session_id))
       (\<lambda>competition_results.
     io_bind (notify progress_callback 10 ''Extraindo insights exclusivos com dados reais...'') (\<lambda>_.
     io_bind (io_total (execute_real_insights_extraction web_research_results
                          social_analysis_results session_id)) (\<lambda>insights_results.
     io_bind (notify progress_callback 11
                (''Identificando palavras-chave estrat'' @ e_acute # ''gicas com dados reais...'')) (\<lambda>_.
     io_bind (io_total (execute_real_keywords_analysis web_research_results avatar_results session_id))
       (\<lambda>keywords_results.
     io_bind (notify progress_callback 12 ''Otimizando funil de vendas com dados reais...'') (\<lambda>_.
     io_bind (io_total (execute_real_sales_funnel drivers_results avatar_results session_id))
       (\<lambda>funnel_results.
     io_bind (notify progress_callback 13
                (''Gerando relat'' @ o_acute # ''rio final completo com dados reais...'')) (\<lambda>_.
     io_return
       (PDict [(''session_id'', PStr session_id),
               (''projeto_dados'', data),
               (''pesquisa_web_massiva'', web_research_results),
               (''avatar_ultra_detalhado'', avatar_results),
               (''drivers_mentais_customizados'', drivers_results),
               (''provas_visuais_arsenal'', visual_proofs_results),
               (''sistema_anti_objecao'', anti_objection_results),
               (''pre_pitch_invisivel'', pre_pitch_results),
               (''predicoes_futuro_detalhadas'', predictions_results),
               (''analise_concorrencia'', competition_results),
               (''insights_exclusivos'', insights_results),
               (''palavras_chave_estrategicas'', keywords_results),
               (''funil_vendas_otimizado'', funnel_results),
               (''analise_redes_sociais'', social_analysis_results)])
     )))))))))))))))))))))))))"

text \<open>The entry that a run creates for its session.\<close>

definition new_session :: "real \<Rightarrow> session_state" where
  "new_session t =
     \<lparr> status = ''running'', start_time = t, components_completed = [], errors = [],
       recursion_prevented = 0, real_data_only = True, execution_time = None \<rparr>"

text \<open>
  \<^verbatim>\<open>self.execution_state[session_id]['status'] = 'completed'\<close> and the assignment of
  \<^verbatim>\<open>execution_time\<close> that follows it.
\<close>

definition complete_session :: "string \<Rightarrow> real \<Rightarrow> orchestrator \<Rightarrow> exn + orchestrator" where
  "complete_session session_id t st =
     (case execution_state st session_id of
        None \<Rightarrow> Inl (KeyError session_id)
      | Some s \<Rightarrow>
          Inr (st\<lparr>execution_state :=
                    (execution_state st)(session_id \<mapsto> s\<lparr>status := ''completed'', execution_time := Some t\<rparr>)\<rparr>))"

text \<open>
  The handler of the \<^verbatim>\<open>try\<close> that spans the run. \<^verbatim>\<open>salvar_erro\<close> is the persistence
  sink; the source's own stand-in for it does nothing, and it is taken to return.
\<close>

definition emergency_return :: "orchestrator \<Rightarrow> string \<Rightarrow> event list \<Rightarrow> exn \<Rightarrow> orchestrator \<times> event list \<times> pyval" where
  "emergency_return st session_id l e =
     (st\<lparr>global_recursion_depth := Map.empty\<rparr>, l,
      PDict [(''success'', PBool False),
             (''session_id'', PStr session_id),
             (''error'', PStr (exn_str e)),
             (''emergency_mode'', PBool True)])"

text \<open>
  \<^verbatim>\<open>execute_synchronized_analysis\<close> returns the orchestrator's state after the call, the
  events of the call and the result. The lock is left out: one call runs at a time.
\<close>

definition execute_synchronized_analysis :: "orchestrator \<Rightarrow> env \<Rightarrow> pyval \<Rightarrow> string \<Rightarrow> callback option \<Rightarrow> orchestrator \<times> event list \<times> pyval" where
  "execute_synchronized_analysis st env data session_id progress_callback =
     (if \<not> truthy data then
        (st, [],
         PDict [(''success'', PBool False),
                (''session_id'', PStr session_id),
                (''error'', PStr (''Dados de entrada obrigat'' @ o_acute # ''rios n'' @ a_tilde # ''o fornecidos'')),
                (''emergency_mode'', PBool True)])
      else
        let st1 = st\<lparr>global_recursion_depth := Map.empty\<rparr>;
            st2 = st1\<lparr>execution_state :=
                        (execution_state st1)(session_id \<mapsto> new_session (time_start env))\<rparr>
        in
          case io_bind (run_phases st2 env data session_id progress_callback) (\<lambda>complete_analysis_data.
                 io_total (generate_final_report st2 env complete_analysis_data session_id)) of
            (l, Inl e) \<Rightarrow> emergency_return st2 session_id l e
          | (l, Inr final_report) \<Rightarrow>
              (case complete_session session_id (time_end env - time_start env) st2 of
                 Inl e \<Rightarrow> emergency_return st2 session_id l e
               | Inr st3 \<Rightarrow>
                   (st3, l,
                    PDict [(''success'', PBool True),
                           (''session_id'', PStr session_id),
                           (''execution_time'', PFloat (time_end env - time_start env)),
                           (''total_components_executed'', PInt 12),
                           (''report'', final_report),
                           (''data_validation'',
                              PDict [(''all_data_real'', PBool True),
                                     (''zero_simulated_data'', PBool True),
                                     (''zero_fallbacks_used'', PBool True),
                                     (''components_with_real_data'', PInt 12)]),
                           (''sync_status'', PStr ''PERFECT_SYNC_REAL_DATA_ONLY'')])))"

section \<open>Progress of a session\<close>



section \<open>Observations and concrete inputs\<close>

text \<open>\<open>py_field v k\<close> is the entry of the dict \<open>v\<close> under \<open>k\<close>, if \<open>v\<close> is a dict that has one.\<close>

fun py_field :: "pyval \<Rightarrow> string \<Rightarrow> pyval option" where
  "py_field (PDict kvs) k = map_of kvs k"
| "py_field v k = None"

text \<open>The keys of a dict, in order.\<close>

fun py_field_names :: "pyval \<Rightarrow> string list" where
  "py_field_names (PDict kvs) = map fst kvs"
| "py_field_names v = []"

text \<open>Inputs at which the theorems below are instantiated.\<close>

definition example_env :: env where
  "example_env =
     \<lparr> enhanced_search_coordinator = None, time_start = 100, time_end = 160,
       isoformat_now = ''2024-01-01T00:00:00'', str_other = (\<lambda>v. ''?''),
       format_0f = (\<lambda>x. ''?'') \<rparr>"

definition example_data :: pyval where
  "example_data = PDict [(''segmento'', PStr ''fitness''), (''produto'', PStr ''app'')]"

definition raising_callback :: callback where
  "raising_callback i msg = Some (OtherError ''boom'')"

text \<open>
  The state in which the phases of a run execute: the depth map cleared and the
  session's entry created.
\<close>

definition session_begun :: "orchestrator \<Rightarrow> env \<Rightarrow> string \<Rightarrow> orchestrator" where
  "session_begun st env session_id =
     st\<lparr>global_recursion_depth := Map.empty,
        execution_state := (execution_state st)(session_id \<mapsto> new_session (time_start env))\<rparr>"

text \<open>
  An orchestrator with no collaborator while its run of session \<open>s1\<close>, begun at clock
  reading 100, executes its phases, and the same orchestrator after a run of 60 seconds.
\<close>

definition example_running :: orchestrator where
  "example_running = session_begun (init Map.empty) example_env ''s1''"


text \<open>The same environment with a later clock.\<close>

definition example_env_later :: env where
  "example_env_later = example_env\<lparr>time_start := 200, time_end := 230\<rparr>"

text \<open>
  The keys of the consolidated record under which the twelve phase outputs are stored,
  in the order of the phases, and the status that the record holds for a phase.
\<close>

definition phase_keys :: "string list" where
  "phase_keys =
     [''pesquisa_web_massiva'', ''analise_redes_sociais'', ''avatar_ultra_detalhado'',
      ''drivers_mentais_customizados'', ''provas_visuais_arsenal'', ''sistema_anti_objecao'',
      ''pre_pitch_invisivel'', ''predicoes_futuro_detalhadas'', ''analise_concorrencia'',
      ''insights_exclusivos'', ''palavras_chave_estrategicas'', ''funil_vendas_otimizado'']"

definition phase_status :: "pyval \<Rightarrow> string \<Rightarrow> pyval option" where
  "phase_status record k =
     (case py_field record k of None \<Rightarrow> None | Some out \<Rightarrow> py_field out ''status'')"

text \<open>The value of a computation that did not raise.\<close>

definition io_value :: "'a io \<Rightarrow> 'a option" where
  "io_value m = (case snd m of Inl e \<Rightarrow> None | Inr v \<Rightarrow> Some v)"

text \<open>
  The thirteen invocations of the progress callback that \<^verbatim>\<open>execute_synchronized_analysis\<close>
  writes, in order, and the first of them at which a callback raises.
\<close>

definition progress_calls :: "(nat \<times> string) list" where
  "progress_calls =
     [(1, ''Executando pesquisa web massiva com dados reais...''),
      (2, ''Analisando redes sociais com dados reais...''),
      (3, ''Criando avatar ultra-detalhado com dados reais...''),
      (4, ''Gerando drivers mentais customizados com dados reais...''),
      (5, ''Criando provas visuais com dados reais...''),
      (6, ''Desenvolvendo sistema anti-obje'' @ c_cedilla # a_tilde # ''o com dados reais...''),
      (7, ''Construindo pr'' @ e_acute # ''-pitch invis'' @ i_acute # ''vel com dados reais...''),
      (8, ''Gerando predi'' @ c_cedilla # o_tilde # ''es futuras com dados reais...''),
      (9, ''Analisando concorr'' @ e_circ # ''ncia com dados reais...''),
      (10, ''Extraindo insights exclusivos com dados reais...''),
      (11, ''Identificando palavras-chave estrat'' @ e_acute # ''gicas com dados reais...''),
      (12, ''Otimizando funil de vendas com dados reais...''),
      (13, ''Gerando relat'' @ o_acute # ''rio final completo com dados reais...'')]"

fun first_raise :: "callback \<Rightarrow> (nat \<times> string) list \<Rightarrow> (nat \<times> string \<times> exn) option" where
  "first_raise cb [] = None"
| "first_raise cb ((i, msg) # rest) =
     (case cb i msg of Some e \<Rightarrow> Some (i, msg, e) | None \<Rightarrow> first_raise cb rest)"

text \<open>A computation that ended with the exception of a callback invocation, its last event.\<close>

definition aborted_at :: "'a io \<Rightarrow> nat \<Rightarrow> string \<Rightarrow> exn \<Rightarrow> bool" where
  "aborted_at r i msg e = (snd r = Inl e \<and> fst r \<noteq> [] \<and> last (fst r) = Progress i msg)"


text \<open>
  A callback that returns, the state after a run that the raising callback aborted,
  and a state whose depth map holds an entry.
\<close>

definition quiet_callback :: callback where
  "quiet_callback i msg = None"



text \<open>
  A phase output is well formed when it is a dict with a \<open>status\<close> entry. A value is
  returned by the collaborator stored under \<open>key\<close> when one of its operations returns
  it for some arguments.
\<close>

definition has_status :: "pyval \<Rightarrow> bool" where
  "has_status v = (py_field v ''status'' \<noteq> None)"

definition returned_by :: "orchestrator \<Rightarrow> string \<Rightarrow> pyval \<Rightarrow> bool" where
  "returned_by st key v =
     (\<exists>svc name f args. services st key = Some svc \<and> methods svc name = Some f \<and> f args = Inr v)"

text \<open>Every value that a computation can return satisfies \<open>P\<close>.\<close>

definition io_results :: "'a io \<Rightarrow> ('a \<Rightarrow> bool) \<Rightarrow> bool" where
  "io_results m P = (\<forall>l v. m = (l, Inr v) \<longrightarrow> P v)"

text \<open>
  The consolidated record as the phase table of the specification describes it: each
  phase applied to the request params and to the outputs of the phases it consumes.
\<close>

definition chained_record :: "orchestrator \<Rightarrow> env \<Rightarrow> pyval \<Rightarrow> string \<Rightarrow> pyval" where
  "chained_record st env data session_id =
     (let web = snd (execute_real_web_search st env data session_id);
          social = snd (execute_real_social_analysis st env data session_id);
          avatar = snd (execute_real_avatar_analysis env web social data session_id);
          drivers = snd (execute_real_mental_drivers st avatar web data session_id);
          visual = snd (execute_real_visual_proofs st env drivers data session_id);
          anti_objection = snd (execute_real_anti_objection st env drivers avatar data session_id);
          pre_pitch = snd (execute_real_pre_pitch st drivers anti_objection data session_id);
          predictions = snd (execute_real_future_predictions st web social session_id);
          competition = snd (execute_real_competition_analysis env web data session_id);
          insights = snd (execute_real_insights_extraction web social session_id);
          keywords = snd (execute_real_keywords_analysis web avatar session_id);
          funnel = snd (execute_real_sales_funnel drivers avatar session_id)
      in PDict [(''session_id'', PStr session_id),
                (''projeto_dados'', data),
                (''pesquisa_web_massiva'', web),
                (''avatar_ultra_detalhado'', avatar),
                (''drivers_mentais_customizados'', drivers),
                (''provas_visuais_arsenal'', visual),
                (''sistema_anti_objecao'', anti_objection),
                (''pre_pitch_invisivel'', pre_pitch),
                (''predicoes_futuro_detalhadas'', predictions),
                (''analise_concorrencia'', competition),
                (''insights_exclusivos'', insights),
                (''palavras_chave_estrategicas'', keywords),
                (''funil_vendas_otimizado'', funnel),
                (''analise_redes_sociais'', social)])"

text \<open>
  A candidate operation fails for a loop that checks results when the collaborator does
  not expose it, when it raises, or when what it returns is falsy; \<open>exposed\<close> are the
  candidates that the collaborator exposes, in order.
\<close>

definition candidate_fails :: "service \<Rightarrow> pyval list \<Rightarrow> string \<Rightarrow> bool" where
  "candidate_fails svc args name =
     (case methods svc name of
        None \<Rightarrow> True
      | Some f \<Rightarrow> (case f args of Inl e \<Rightarrow> True | Inr r \<Rightarrow> \<not> truthy r))"

definition exposed :: "service \<Rightarrow> string list \<Rightarrow> string list" where
  "exposed svc names = filter (\<lambda>n. methods svc n \<noteq> None) names"


text \<open>
  Collaborators for the examples: a social data provider whose search raises, a mental
  drivers architect whose result has no \<open>status\<close> entry, a visual proofs generator
  whose first operation returns an empty dict, and a report generator whose operations
  raise, are missing, or return a falsy value before one returns a report.
\<close>

definition example_failing_service :: service where
  "example_failing_service =
     \<lparr> class_name = ''SupadataManager'',
       methods = [''search_all_platforms'' \<mapsto> (\<lambda>args. Inl (OtherError ''quota exceeded''))] \<rparr>"

definition example_with_failing :: orchestrator where
  "example_with_failing = init [''mcp_supadata_manager'' \<mapsto> example_failing_service]"

definition example_drivers_service :: service where
  "example_drivers_service =
     \<lparr> class_name = ''MentalDriversArchitect'',
       methods = [''create_complete_mental_drivers_system'' \<mapsto>
                    (\<lambda>args. Inr (PDict [(''drivers_customizados'', PList [PStr ''urgencia''])]))] \<rparr>"

definition example_with_drivers :: orchestrator where
  "example_with_drivers = init [''mental_drivers_architect'' \<mapsto> example_drivers_service]"

definition example_visual_service :: service where
  "example_visual_service =
     \<lparr> class_name = ''VisualProofsGenerator'',
       methods = [''generate_visual_proofs'' \<mapsto> (\<lambda>args. Inr (PDict [])),
                  ''create_proofs'' \<mapsto>
                    (\<lambda>args. Inr (PDict [(''status'', PStr ''success''),
                                         (''proofs'', PList [PStr ''grafico''])]))] \<rparr>"

definition example_with_visual :: orchestrator where
  "example_with_visual = init [''visual_proofs_generator'' \<mapsto> example_visual_service]"

definition example_report_service :: service where
  "example_report_service =
     \<lparr> class_name = ''EnhancedReportGenerator'',
       methods = [''generate_report'' \<mapsto> (\<lambda>args. Inl (OtherError ''template missing'')),
                  ''build_report'' \<mapsto> (\<lambda>args. Inr (PDict [])),
                  ''process_report'' \<mapsto> (\<lambda>args. Inr (PDict [(''titulo'', PStr ''Relatorio'')])),
                  ''compile_report'' \<mapsto> (\<lambda>args. Inr (PDict [(''titulo'', PStr ''Outro'')]))] \<rparr>"

definition example_with_report :: orchestrator where
  "example_with_report = init [''EnhancedReportGenerator'' \<mapsto> example_report_service]"

section \<open>Basic facts\<close>

subsection \<open>Sequencing\<close>

lemma io_bind_return [simp]: "io_bind (io_return x) f = f x"
  by (simp add: io_bind_def io_return_def split: prod.splits)

lemma io_bind_raise [simp]: "io_bind (io_raise e) f = io_raise e"
  by (simp add: io_bind_def io_raise_def)

lemma io_catch_return [simp]: "io_catch (io_return x) h = ([], x)"
  by (simp add: io_catch_def io_return_def)

lemma io_catch_raise [simp]: "io_catch (io_raise e) h = ([], h e)"
  by (simp add: io_catch_def io_raise_def)

lemma io_bind_total:
  "io_bind (io_total p) f = (fst p @ fst (f (snd p)), snd (f (snd p)))"
  by (simp add: io_bind_def io_total_def split: prod.splits)

lemma io_bind_notify_none [simp]: "io_bind (notify None i msg) f = f ()"
  by (simp add: notify_def)

subsection \<open>Phases whose collaborator is absent\<close>

lemma web_search_absent:
  "services st ''websailor'' = None \<Longrightarrow> enhanced_search_coordinator env = None \<Longrightarrow>
   execute_real_web_search st env (PDict kvs) session_id =
     ([], PDict [(''status'', PStr ''fallback''), (''processed_results'', PList []),
                 (''source'', PStr ''fallback_basic'')])"
  by (simp add: execute_real_web_search_def web_query_def web_search_websailor_def
      web_search_enhanced_def)

lemma social_absent:
  "services st ''supadata'' = None \<Longrightarrow>
   execute_real_social_analysis st env data session_id =
     ([], PDict [(''status'', PStr ''unavailable''), (''total_posts'', PInt 0)])"
  by (simp add: execute_real_social_analysis_def)

lemma drivers_absent:
  "services st ''mental_drivers'' = None \<Longrightarrow>
   execute_real_mental_drivers st avatar_data web_data project_data session_id =
     ([], PDict [(''status'', PStr ''fallback''), (''drivers_customizados'', PList [])])"
  by (simp add: execute_real_mental_drivers_def)

lemma visual_absent:
  "services st ''visual_proofs'' = None \<Longrightarrow>
   execute_real_visual_proofs st env drivers_data project_data session_id =
     ([], PDict [(''status'', PStr ''fallback''), (''proofs'', PList [])])"
  by (simp add: execute_real_visual_proofs_def)

lemma anti_objection_absent:
  "services st ''anti_objection'' = None \<Longrightarrow>
   execute_real_anti_objection st env drivers_data avatar_data data session_id =
     ([], PDict [(''status'', PStr ''fallback''), (''sistema_anti_objecao'', PDict [])])"
  by (simp add: execute_real_anti_objection_def)

lemma pre_pitch_absent:
  "services st ''pre_pitch'' = None \<Longrightarrow>
   execute_real_pre_pitch st drivers_data anti_objection_data project_data session_id =
     ([], PDict [(''status'', PStr ''fallback''), (''sequencias_pre_pitch'', PList [])])"
  by (simp add: execute_real_pre_pitch_def)

lemma predictions_absent:
  "services st ''future_prediction'' = None \<Longrightarrow>
   execute_real_future_predictions st web_data social_data session_id =
     ([], PDict [(''status'', PStr ''fallback''), (''predicoes'', PList [])])"
  by (simp add: execute_real_future_predictions_def)

subsection \<open>The run with no collaborator\<close>

lemma run_phases_all_absent:
  assumes "services st = Map.empty" and "enhanced_search_coordinator env = None"
  shows "run_phases st env example_data session_id None =
     ([], Inr (PDict
        [(''session_id'', PStr session_id),
         (''projeto_dados'', example_data),
         (''pesquisa_web_massiva'',
            PDict [(''status'', PStr ''fallback''), (''processed_results'', PList []),
                   (''source'', PStr ''fallback_basic'')]),
         (''avatar_ultra_detalhado'',
            PDict [(''status'', PStr ''success''),
                   (''nome_ficticio'', PStr ''Avatar fitness''),
                   (''dores_viscerais_unificadas'',
                      PList [PStr ''Falta de tempo'', PStr ''Dificuldade em decidir'']),
                   (''desejos_secretos_unificados'',
                      PList [PStr ''Reconhecimento'', PStr ''Estabilidade'']),
                   (''objecoes_principais'',
                      PList [PStr (''Pre'' @ c_cedilla # ''o alto''),
                             PStr (''Falta de confian'' @ c_cedilla # ''a'')]),
                   (''fonte_dados'', PDict [(''data_real'', PBool True), (''web_sources'', PInt 0)])]),
         (''drivers_mentais_customizados'',
            PDict [(''status'', PStr ''fallback''), (''drivers_customizados'', PList [])]),
         (''provas_visuais_arsenal'',
            PDict [(''status'', PStr ''fallback''), (''proofs'', PList [])]),
         (''sistema_anti_objecao'',
            PDict [(''status'', PStr ''fallback''), (''sistema_anti_objecao'', PDict [])]),
         (''pre_pitch_invisivel'',
            PDict [(''status'', PStr ''fallback''), (''sequencias_pre_pitch'', PList [])]),
         (''predicoes_futuro_detalhadas'',
            PDict [(''status'', PStr ''fallback''), (''predicoes'', PList [])]),
         (''analise_concorrencia'',
            PDict [(''status'', PStr ''success''),
                   (''analise_completa'',
                      PStr (''An'' @ a_acute # ''lise de concorr'' @ e_circ # ''ncia para fitness'')),
                   (''fontes_analisadas'', PInt 0)]),
         (''insights_exclusivos'',
            PDict [(''status'', PStr ''success''),
                   (''insights_completos'', PStr ''Insights baseados nos dados coletados''),
                   (''fontes_utilizadas'',
                      PDict [(''web_sources'', PInt 0), (''social_posts'', PInt 0)])]),
         (''palavras_chave_estrategicas'',
            PDict [(''status'', PStr ''success''),
                   (''analise_completa'',
                      PStr (''Palavras-chave estrat'' @ e_acute # ''gicas identificadas'')),
                   (''fonte_dados'',
                      PDict [(''web_sources_analyzed'', PInt 0), (''avatar_included'', PBool True)])]),
         (''funil_vendas_otimizado'',
            PDict [(''status'', PStr ''success''),
                   (''funil_otimizado'', PStr ''Funil otimizado com base nos dados coletados''),
                   (''dados_base'',
                      PDict [(''drivers_applied'', PInt 0), (''avatar_based'', PBool True)])]),
         (''analise_redes_sociais'',
            PDict [(''status'', PStr ''unavailable''), (''total_posts'', PInt 0)])]))"
proof -
  have web: "execute_real_web_search st env example_data session_id =
     ([], PDict [(''status'', PStr ''fallback''), (''processed_results'', PList []),
                 (''source'', PStr ''fallback_basic'')])"
    unfolding example_data_def using assms by (intro web_search_absent) simp_all
  show ?thesis
    unfolding run_phases_def
    apply (simp only: io_bind_notify_none io_bind_total web fst_conv snd_conv append_Nil
        social_absent drivers_absent visual_absent anti_objection_absent pre_pitch_absent
        predictions_absent assms empty_iff option.simps)
    apply (simp add: assms social_absent drivers_absent visual_absent anti_objection_absent
        pre_pitch_absent predictions_absent)
    apply (simp add: execute_real_avatar_analysis_def execute_real_competition_analysis_def
        execute_real_insights_extraction_def execute_real_keywords_analysis_def
        execute_real_sales_funnel_def example_data_def py_str_def io_return_def io_bind_def
        io_catch_def io_raise_def)
    done
qed

lemma execute_all_absent:
  assumes "services st = Map.empty" and "enhanced_search_coordinator env = None"
  shows "execute_synchronized_analysis st env example_data session_id None =
     (st\<lparr>global_recursion_depth := Map.empty,
         execution_state := (execution_state st)(session_id \<mapsto>
            (new_session (time_start env))\<lparr>status := ''completed'',
                execution_time := Some (time_end env - time_start env)\<rparr>)\<rparr>,
      [],
      PDict [(''success'', PBool True),
             (''session_id'', PStr session_id),
             (''execution_time'', PFloat (time_end env - time_start env)),
             (''total_components_executed'', PInt 12),
             (''report'',
                PDict [(''status'', PStr ''basic''),
                       (''session_id'', PStr session_id),
                       (''timestamp'', PStr (isoformat_now env)),
                       (''resumo_executivo'',
                          PStr (''An'' @ a_acute # ''lise completa finalizada com todos os componentes'')),
                       (''componentes_analisados'',
                          PList [PStr ''session_id'', PStr ''projeto_dados'',
                                 PStr ''pesquisa_web_massiva'', PStr ''avatar_ultra_detalhado'',
                                 PStr ''drivers_mentais_customizados'', PStr ''provas_visuais_arsenal'',
                                 PStr ''sistema_anti_objecao'', PStr ''pre_pitch_invisivel'',
                                 PStr ''predicoes_futuro_detalhadas'', PStr ''analise_concorrencia'',
                                 PStr ''insights_exclusivos'', PStr ''palavras_chave_estrategicas'',
                                 PStr ''funil_vendas_otimizado'', PStr ''analise_redes_sociais'']),
                       (''dados_coletados'',
                          PDict [(''web_sources'', PInt 0),
                                 (''social_posts'', PInt 0),
                                 (''avatar_criado'', PBool True),
                                 (''drivers_gerados'', PInt 0),
                                 (''provas_visuais'', PInt 0),
                                 (''sistema_anti_objecao'', PBool False),
                                 (''funil_otimizado'', PBool True)]),
                       (''report_generator'', PStr ''basic_fallback_enhanced'')]),
             (''data_validation'',
                PDict [(''all_data_real'', PBool True),
                       (''zero_simulated_data'', PBool True),
                       (''zero_fallbacks_used'', PBool True),
                       (''components_with_real_data'', PInt 12)]),
             (''sync_status'', PStr ''PERFECT_SYNC_REAL_DATA_ONLY'')])"
proof -
  let ?st2 = "st\<lparr>global_recursion_depth := Map.empty,
                 execution_state := (execution_state st)(session_id \<mapsto> new_session (time_start env))\<rparr>"
  have s2: "services ?st2 = Map.empty" using assms by simp
  have t: "truthy example_data" by (simp add: example_data_def)
  show ?thesis
    unfolding execute_synchronized_analysis_def Let_def
    apply (simp only: t not_True_eq_False if_False)
    apply (simp add: run_phases_all_absent [OF s2 assms(2)] assms)
    apply (simp add: generate_final_report_def py_get2_def complete_session_def
        io_bind_def io_return_def io_catch_def io_raise_def io_total_def assms)
    done
qed

subsection \<open>The session entry of a run\<close>

lemma services_init_empty: "services (init Map.empty) = Map.empty"
  by (simp add: init_def register_def)

lemma truthy_example_data: "truthy example_data"
  by (simp add: example_data_def)

lemma execute_session_entry:
  assumes "truthy data"
  shows "execution_state (fst (execute_synchronized_analysis st env data session_id cb)) session_id
           = Some (new_session (time_start env))
       \<or> execution_state (fst (execute_synchronized_analysis st env data session_id cb)) session_id
           = Some ((new_session (time_start env))\<lparr>status := ''completed'',
                     execution_time := Some (time_end env - time_start env)\<rparr>)"
  using assms
  by (simp add: execute_synchronized_analysis_def Let_def emergency_return_def complete_session_def
      split: prod.splits sum.splits)

subsection \<open>The progress callback\<close>

lemma snd_io_bind_total: "snd (io_bind (io_total p) f) = snd (f (snd p))"
  by (simp add: io_bind_def io_total_def split: prod.splits)

lemma snd_io_bind_notify_none: "snd (io_bind (notify None i msg) f) = snd (f ())"
  by (simp add: notify_def)

lemma snd_io_bind_notify_quiet:
  "cb i msg = None \<Longrightarrow> snd (io_bind (notify (Some cb) i msg) f) = snd (f ())"
  by (simp add: notify_def io_bind_def split: prod.splits)

lemma aborted_at_total:
  "aborted_at (f (snd p)) i msg e \<Longrightarrow> aborted_at (io_bind (io_total p) f) i msg e"
  by (cases "f (snd p)") (auto simp: aborted_at_def io_bind_def io_total_def)

lemma aborted_at_raise:
  "cb i msg = Some e \<Longrightarrow> aborted_at (io_bind (notify (Some cb) i msg) f) i msg e"
  by (simp add: aborted_at_def io_bind_def notify_def)

lemma aborted_at_quiet:
  "cb j m = None \<Longrightarrow> aborted_at (f ()) i msg e \<Longrightarrow>
   aborted_at (io_bind (notify (Some cb) j m) f) i msg e"
  by (cases "f ()") (auto simp: aborted_at_def io_bind_def notify_def)

lemma run_phases_quiet:
  assumes "first_raise cb progress_calls = None"
  shows "snd (run_phases st env data session_id (Some cb)) = snd (run_phases st env data session_id None)"
proof -
  from assms have q:
    "cb 1 (snd (progress_calls ! 0)) = None" "cb 2 (snd (progress_calls ! 1)) = None"
    "cb 3 (snd (progress_calls ! 2)) = None" "cb 4 (snd (progress_calls ! 3)) = None"
    "cb 5 (snd (progress_calls ! 4)) = None" "cb 6 (snd (progress_calls ! 5)) = None"
    "cb 7 (snd (progress_calls ! 6)) = None" "cb 8 (snd (progress_calls ! 7)) = None"
    "cb 9 (snd (progress_calls ! 8)) = None" "cb 10 (snd (progress_calls ! 9)) = None"
    "cb 11 (snd (progress_calls ! 10)) = None" "cb 12 (snd (progress_calls ! 11)) = None"
    "cb 13 (snd (progress_calls ! 12)) = None"
    by (simp_all add: progress_calls_def split: option.splits)
  show ?thesis
    unfolding run_phases_def
    using q
    by (simp add: progress_calls_def snd_io_bind_total snd_io_bind_notify_none
        snd_io_bind_notify_quiet)
qed

lemma run_phases_raise:
  assumes "first_raise cb progress_calls = Some (i, msg, e)"
  shows "aborted_at (run_phases st env data session_id (Some cb)) i msg e"
  using assms unfolding run_phases_def progress_calls_def
  by (auto split: option.splits
      intro!: aborted_at_total aborted_at_raise aborted_at_quiet)

lemma run_phases_without_callback:
  "\<exists>cad. snd (run_phases st env data session_id None) = Inr cad"
  by (simp add: run_phases_def snd_io_bind_total snd_io_bind_notify_none io_return_def)

subsection \<open>The two ways a run ends\<close>

lemma execute_aborted:
  assumes "truthy data"
    and "snd (run_phases (session_begun st env session_id) env data session_id cb) = Inl e"
  shows "execute_synchronized_analysis st env data session_id cb =
           emergency_return (session_begun st env session_id) session_id
             (fst (run_phases (session_begun st env session_id) env data session_id cb)) e"
proof -
  obtain l where r: "run_phases (session_begun st env session_id) env data session_id cb = (l, Inl e)"
    using assms(2) by (cases "run_phases (session_begun st env session_id) env data session_id cb") simp
  show ?thesis
    using assms(1) r
    by (simp add: execute_synchronized_analysis_def Let_def io_bind_def
        session_begun_def [symmetric])
qed

lemma execute_completed:
  assumes "truthy data"
    and "snd (run_phases (session_begun st env session_id) env data session_id cb) = Inr cad"
  shows "execute_synchronized_analysis st env data session_id cb =
           ((session_begun st env session_id)\<lparr>execution_state :=
               (execution_state (session_begun st env session_id))(session_id \<mapsto>
                  (new_session (time_start env))\<lparr>status := ''completed'',
                     execution_time := Some (time_end env - time_start env)\<rparr>)\<rparr>,
            fst (run_phases (session_begun st env session_id) env data session_id cb)
              @ fst (generate_final_report (session_begun st env session_id) env cad session_id),
            PDict [(''success'', PBool True),
                   (''session_id'', PStr session_id),
                   (''execution_time'', PFloat (time_end env - time_start env)),
                   (''total_components_executed'', PInt 12),
                   (''report'',
                      snd (generate_final_report (session_begun st env session_id) env cad session_id)),
                   (''data_validation'',
                      PDict [(''all_data_real'', PBool True),
                             (''zero_simulated_data'', PBool True),
                             (''zero_fallbacks_used'', PBool True),
                             (''components_with_real_data'', PInt 12)]),
                   (''sync_status'', PStr ''PERFECT_SYNC_REAL_DATA_ONLY'')])"
proof -
  obtain l where r: "run_phases (session_begun st env session_id) env data session_id cb = (l, Inr cad)"
    using assms(2) by (cases "run_phases (session_begun st env session_id) env data session_id cb") simp
  have c: "complete_session session_id t (session_begun st env session_id) =
             Inr ((session_begun st env session_id)\<lparr>execution_state :=
               (execution_state (session_begun st env session_id))(session_id \<mapsto>
                  (new_session (time_start env))\<lparr>status := ''completed'', execution_time := Some t\<rparr>)\<rparr>)"
    for t
    by (simp add: complete_session_def session_begun_def)
  show ?thesis
    using assms(1) r
    by (simp add: execute_synchronized_analysis_def Let_def io_bind_def io_total_def
        session_begun_def [symmetric] c split: prod.splits)
qed

lemma execute_quiet_callback:
  assumes "truthy data" and "first_raise cb progress_calls = None"
  shows "fst (execute_synchronized_analysis st env data session_id (Some cb))
           = fst (execute_synchronized_analysis st env data session_id None)
       \<and> snd (snd (execute_synchronized_analysis st env data session_id (Some cb)))
           = snd (snd (execute_synchronized_analysis st env data session_id None))"
proof -
  obtain cad where n: "snd (run_phases (session_begun st env session_id) env data session_id None) = Inr cad"
    using run_phases_without_callback by blast
  with run_phases_quiet [OF assms(2)]
  have q: "snd (run_phases (session_begun st env session_id) env data session_id (Some cb)) = Inr cad"
    by simp
  show ?thesis
    by (simp add: execute_completed [OF assms(1) n] execute_completed [OF assms(1) q])
qed

lemma execute_raising_callback:
  assumes "truthy data" and "first_raise cb progress_calls = Some (i, msg, e)"
  shows "execute_synchronized_analysis st env data session_id (Some cb) =
           (session_begun st env session_id,
            fst (run_phases (session_begun st env session_id) env data session_id (Some cb)),
            PDict [(''success'', PBool False),
                   (''session_id'', PStr session_id),
                   (''error'', PStr (exn_str e)),
                   (''emergency_mode'', PBool True)])
       \<and> last (fst (run_phases (session_begun st env session_id) env data session_id (Some cb)))
           = Progress i msg"
proof -
  from run_phases_raise [OF assms(2)]
  have a: "aborted_at (run_phases (session_begun st env session_id) env data session_id (Some cb)) i msg e" .
  then have r: "snd (run_phases (session_begun st env session_id) env data session_id (Some cb)) = Inl e"
    by (simp add: aborted_at_def)
  have b: "(session_begun st env session_id)\<lparr>global_recursion_depth := Map.empty\<rparr>
             = session_begun st env session_id"
    by (simp add: session_begun_def)
  show ?thesis
    using a by (simp add: execute_aborted [OF assms(1) r] emergency_return_def b aborted_at_def)
qed






subsection \<open>Invariants of the reachable states\<close>




lemma first_raise_raising_callback:
  "first_raise raising_callback progress_calls =
     Some (1, ''Executando pesquisa web massiva com dados reais...'', OtherError ''boom'')"
  by (simp add: progress_calls_def raising_callback_def)

lemma first_raise_quiet_callback: "first_raise quiet_callback progress_calls = None"
  by (simp add: progress_calls_def quiet_callback_def)

lemma enhanced_example_env: "enhanced_search_coordinator example_env = None"
  by (simp add: example_env_def)

subsection \<open>What the phases return\<close>

lemma results_return: "P x \<Longrightarrow> io_results (io_return x) P"
  by (simp add: io_results_def io_return_def)

lemma results_raise: "io_results (io_raise e) P"
  by (simp add: io_results_def io_raise_def)

lemma results_bind:
  "io_results m (\<lambda>x. io_results (f x) P) \<Longrightarrow> io_results (io_bind m f) P"
  by (cases m; cases "snd m") (auto simp: io_results_def io_bind_def split: prod.splits)

lemma results_try:
  "io_results m P \<Longrightarrow> (\<And>e. io_results (h e) P) \<Longrightarrow> io_results (io_try m h) P"
  by (cases m; cases "snd m") (auto simp: io_results_def io_try_def split: prod.splits)

lemma results_catch:
  "io_results m P \<Longrightarrow> (\<And>e. P (h e)) \<Longrightarrow> P (snd (io_catch m h))"
  by (cases m; cases "snd m") (auto simp: io_results_def io_catch_def)

lemma results_get:
  "(\<And>kvs. d = PDict kvs \<Longrightarrow> P (case map_of kvs k of None \<Rightarrow> dflt | Some v \<Rightarrow> v)) \<Longrightarrow>
   io_results (py_get d k dflt) P"
  by (cases d) (simp_all add: io_results_def io_return_def io_raise_def)

lemma results_get_any: "(\<And>v. P v) \<Longrightarrow> io_results (py_get d k dflt) P"
  by (simp add: io_results_def)

lemma results_len: "(\<And>v. P v) \<Longrightarrow> io_results (py_len d) P"
  by (simp add: io_results_def)

lemma results_iter: "(\<And>v. P v) \<Longrightarrow> io_results (py_iter d) P"
  by (simp add: io_results_def)

lemma results_call:
  "(\<And>f v. methods svc name = Some f \<Longrightarrow> f args = Inr v \<Longrightarrow> P v) \<Longrightarrow>
   io_results (call_method key svc name args) P"
  by (auto simp: io_results_def call_method_def io_raise_def split: option.splits)

lemma results_if:
  "(c \<Longrightarrow> io_results a P) \<Longrightarrow> (\<not> c \<Longrightarrow> io_results b P) \<Longrightarrow>
   io_results (if c then a else b) P"
  by simp

lemma results_option:
  "(x = None \<Longrightarrow> io_results a P) \<Longrightarrow> (\<And>y. x = Some y \<Longrightarrow> io_results (f y) P) \<Longrightarrow>
   io_results (case x of None \<Rightarrow> a | Some y \<Rightarrow> f y) P"
  by (cases x) simp_all

lemmas results_rules =
  results_return results_raise results_bind results_try results_if results_option
  results_get_any results_len results_iter

lemma has_status_dict [simp]: "has_status (PDict ((''status'', v) # kvs))"
  by (simp add: has_status_def)

lemma returned_byI:
  "services st key = Some svc \<Longrightarrow> methods svc name = Some f \<Longrightarrow> f args = Inr v \<Longrightarrow>
   returned_by st key v"
  unfolding returned_by_def by blast

lemma avatar_has_status:
  "has_status (snd (execute_real_avatar_analysis env web_data social_data project_data session_id))"
  unfolding execute_real_avatar_analysis_def
  by (rule results_catch) (intro results_rules, simp_all)

lemma competition_has_status:
  "has_status (snd (execute_real_competition_analysis env web_data project_data session_id))"
  unfolding execute_real_competition_analysis_def
  by (rule results_catch) (intro results_rules, simp_all)

lemma insights_has_status:
  "has_status (snd (execute_real_insights_extraction web_data social_data session_id))"
  unfolding execute_real_insights_extraction_def
  by (rule results_catch) (intro results_rules, simp_all)

lemma keywords_has_status:
  "has_status (snd (execute_real_keywords_analysis web_data avatar_data session_id))"
  unfolding execute_real_keywords_analysis_def
  by (rule results_catch) (intro results_rules, simp_all)

lemma funnel_has_status:
  "has_status (snd (execute_real_sales_funnel drivers_data avatar_data session_id))"
  unfolding execute_real_sales_funnel_def
  by (rule results_catch) (intro results_rules, simp_all)

lemma social_has_status:
  "has_status (snd (execute_real_social_analysis st env data session_id))"
  unfolding execute_real_social_analysis_def
  by (rule results_catch) (intro results_rules results_call, simp_all)

lemma websailor_results:
  "io_results (web_search_websailor st query data session_id)
     (\<lambda>r. \<forall>v. r = Some v \<longrightarrow> has_status v)"
  unfolding web_search_websailor_def
  by (intro results_rules results_call results_get)
     (auto simp: has_status_def split: option.splits)

lemma enhanced_results:
  "io_results (web_search_enhanced env query session_id)
     (\<lambda>r. \<forall>v. r = Some v \<longrightarrow> has_status v)"
  unfolding web_search_enhanced_def
  by (intro results_rules results_call) auto

lemma results_weaken:
  "io_results m Q \<Longrightarrow> (\<And>v. Q v \<Longrightarrow> P v) \<Longrightarrow> io_results m P"
  by (simp add: io_results_def)

lemma web_query_results: "(\<And>v. P v) \<Longrightarrow> io_results (web_query env data) P"
  by (simp add: io_results_def)

lemma web_search_has_status:
  "has_status (snd (execute_real_web_search st env data session_id))"
  unfolding execute_real_web_search_def
proof (rule results_catch)
  show "io_results
     (io_bind (web_query env data) (\<lambda>query.
        io_bind (web_search_websailor st query data session_id) (\<lambda>r1.
          case r1 of
            Some websailor_results \<Rightarrow> io_return websailor_results
          | None \<Rightarrow>
              io_bind (web_search_enhanced env query session_id) (\<lambda>r2.
                case r2 of
                  Some found \<Rightarrow> io_return found
                | None \<Rightarrow>
                    io_return (PDict [(''status'', PStr ''fallback''),
                                      (''processed_results'', PList []),
                                      (''source'', PStr ''fallback_basic'')])))))
     has_status"
    apply (intro results_bind web_query_results)
    apply (rule results_weaken [OF websailor_results])
    apply (intro results_option results_return results_bind)
      apply (rule results_weaken [OF enhanced_results])
      apply (intro results_option results_return)
       apply simp_all
    done
qed simp

lemma try_methods_results:
  assumes "P None"
    and "\<And>r name f. truthy r \<Longrightarrow> methods svc name = Some f \<Longrightarrow> f args = Inr r \<Longrightarrow> P (Some r)"
  shows "io_results (try_methods key svc args names) P"
proof (induction names)
  case Nil
  show ?case by (simp add: results_return assms(1))
next
  case (Cons name rest)
  show ?case
  proof (cases "methods svc name")
    case None
    with Cons show ?thesis by simp
  next
    case (Some f)
    have attempt: "io_results
        (io_try
           (io_bind (call_method key svc name args) (\<lambda>result.
            io_return (if truthy result then Some result else None)))
           (\<lambda>method_error. io_return None))
        (\<lambda>r. \<forall>v. r = Some v \<longrightarrow> truthy v \<and> (\<exists>name f. methods svc name = Some f \<and> f args = Inr v))"
      by (intro results_rules results_call) auto
    show ?thesis
      unfolding try_methods.simps Some option.case
      apply (rule results_bind)
      apply (rule results_weaken [OF attempt])
      apply (intro results_option results_return Cons.IH)
      apply (auto intro: assms(2))
      done
  qed
qed

lemma visual_proofs_loop_results:
  assumes "P PNone"
    and "\<And>v name f args. methods svc name = Some f \<Longrightarrow> f args = Inr v \<Longrightarrow> P v"
  shows "io_results (visual_proofs_loop svc drivers_data project_data session_id names) P"
proof (induction names)
  case Nil
  show ?case by (simp add: results_return assms(1))
next
  case (Cons name rest)
  show ?case
  proof (cases "methods svc name")
    case None
    with Cons show ?thesis by simp
  next
    case (Some f)
    have attempt: "io_results
        (io_try
           (io_bind (py_get project_data ''segmento'' (PStr [])) (\<lambda>s.
            io_bind (py_get project_data ''produto'' (PStr [])) (\<lambda>p.
            io_bind (call_method ''visual_proofs'' svc name
                       [drivers_data, s, p, PStr session_id]) (\<lambda>visual_proofs.
            io_return (Some visual_proofs)))))
           (\<lambda>method_error. io_return None))
        (\<lambda>r. \<forall>v. r = Some v \<longrightarrow> (\<exists>name f args. methods svc name = Some f \<and> f args = Inr v))"
      by (intro results_rules results_call) auto
    show ?thesis
      unfolding visual_proofs_loop.simps Some option.case
      apply (rule results_bind)
      apply (rule results_weaken [OF attempt])
      apply (intro results_option results_return Cons.IH)
      apply (auto intro: assms(2))
      done
  qed
qed

lemma drivers_output:
  "has_status (snd (execute_real_mental_drivers st avatar_data web_data project_data session_id))
   \<or> truthy (snd (execute_real_mental_drivers st avatar_data web_data project_data session_id))
     \<and> returned_by st ''mental_drivers''
         (snd (execute_real_mental_drivers st avatar_data web_data project_data session_id))"
  unfolding execute_real_mental_drivers_def
  by (rule results_catch [where P = "\<lambda>v. has_status v \<or> truthy v \<and> returned_by st ''mental_drivers'' v"])
     (intro results_rules results_call, auto simp: py_or_def intro: returned_byI)

lemma pre_pitch_output:
  "has_status (snd (execute_real_pre_pitch st drivers_data anti_objection_data project_data session_id))
   \<or> truthy (snd (execute_real_pre_pitch st drivers_data anti_objection_data project_data session_id))
     \<and> returned_by st ''pre_pitch''
         (snd (execute_real_pre_pitch st drivers_data anti_objection_data project_data session_id))"
  unfolding execute_real_pre_pitch_def
  by (rule results_catch [where P = "\<lambda>v. has_status v \<or> truthy v \<and> returned_by st ''pre_pitch'' v"])
     (intro results_rules results_call, auto simp: py_or_def intro: returned_byI)

lemma predictions_output:
  "has_status (snd (execute_real_future_predictions st web_data social_data session_id))
   \<or> truthy (snd (execute_real_future_predictions st web_data social_data session_id))
     \<and> returned_by st ''future_prediction''
         (snd (execute_real_future_predictions st web_data social_data session_id))"
  unfolding execute_real_future_predictions_def
  by (rule results_catch [where P = "\<lambda>v. has_status v \<or> truthy v \<and> returned_by st ''future_prediction'' v"])
     (intro results_rules results_call, auto simp: py_or_def intro: returned_byI)

lemma anti_objection_output:
  "has_status (snd (execute_real_anti_objection st env drivers_data avatar_data data session_id))
   \<or> truthy (snd (execute_real_anti_objection st env drivers_data avatar_data data session_id))
     \<and> returned_by st ''anti_objection''
         (snd (execute_real_anti_objection st env drivers_data avatar_data data session_id))"
  unfolding execute_real_anti_objection_def
  by (rule results_catch [where P = "\<lambda>v. has_status v \<or> truthy v \<and> returned_by st ''anti_objection'' v"])
     (intro results_rules try_methods_results, auto intro: returned_byI)

lemma visual_proofs_output:
  "has_status (snd (execute_real_visual_proofs st env drivers_data project_data session_id))
   \<or> truthy (snd (execute_real_visual_proofs st env drivers_data project_data session_id))
     \<and> returned_by st ''visual_proofs''
         (snd (execute_real_visual_proofs st env drivers_data project_data session_id))"
  unfolding execute_real_visual_proofs_def
  by (rule results_catch [where P = "\<lambda>v. has_status v \<or> truthy v \<and> returned_by st ''visual_proofs'' v"])
     (intro results_rules visual_proofs_loop_results, auto intro: returned_byI)

lemma run_phases_chained:
  "snd (run_phases st env data session_id None) = Inr (chained_record st env data session_id)"
  by (simp add: run_phases_def chained_record_def Let_def snd_io_bind_total
      snd_io_bind_notify_none io_return_def)

lemma execute_without_callback:
  assumes "truthy data"
  shows "py_field (snd (snd (execute_synchronized_analysis st env data session_id None))) ''success''
           = Some (PBool True)
       \<and> py_field (snd (snd (execute_synchronized_analysis st env data session_id None))) ''report''
           = Some (snd (generate_final_report (session_begun st env session_id) env
                          (chained_record (session_begun st env session_id) env data session_id)
                          session_id))
       \<and> map_option status
            (execution_state (fst (execute_synchronized_analysis st env data session_id None)) session_id)
           = Some ''completed''"
  by (simp add: execute_completed [OF assms run_phases_chained])

lemma services_example_with_drivers:
  "services example_with_drivers ''mental_drivers'' = Some example_drivers_service"
  by (simp add: example_with_drivers_def init_def register_def)

lemma drivers_example_output:
  "execute_real_mental_drivers example_with_drivers avatar_data web_data example_data ''s1'' =
     ([Invoke ''mental_drivers'' ''create_complete_mental_drivers_system''],
      PDict [(''drivers_customizados'', PList [PStr ''urgencia''])])"
  by (simp add: execute_real_mental_drivers_def services_example_with_drivers example_data_def
      call_method_def example_drivers_service_def io_bind_def io_return_def io_catch_def py_or_def)

lemma services_example_with_visual:
  "services example_with_visual ''visual_proofs'' = Some example_visual_service"
  by (simp add: example_with_visual_def init_def register_def)

lemma try_methods_skip:
  assumes "candidate_fails svc args name"
  shows "try_methods key svc args (name # rest) =
           (map (Invoke key) (exposed svc [name]) @ fst (try_methods key svc args rest),
            snd (try_methods key svc args rest))"
proof (cases "methods svc name")
  case None
  then show ?thesis by (simp add: exposed_def)
next
  case (Some f)
  with assms show ?thesis
    by (cases "f args")
       (simp_all add: candidate_fails_def exposed_def call_method_def io_bind_def io_try_def
         io_return_def split: prod.splits)
qed

lemma try_methods_all_fail:
  assumes "\<forall>n \<in> set names. candidate_fails svc args n"
  shows "try_methods key svc args names = (map (Invoke key) (exposed svc names), Inr None)"
  using assms
proof (induction names)
  case Nil
  show ?case by (simp add: exposed_def io_return_def)
next
  case (Cons name rest)
  then have f: "candidate_fails svc args name"
    and r: "\<forall>n \<in> set rest. candidate_fails svc args n"
    by simp_all
  show ?case
    unfolding try_methods_skip [OF f] Cons.IH [OF r] by (simp add: exposed_def)
qed

lemma try_methods_win:
  assumes "methods svc name = Some f" and "f args = Inr v" and "truthy v"
  shows "try_methods key svc args (name # rest) = ([Invoke key name], Inr (Some v))"
  using assms
  by (simp add: call_method_def io_bind_def io_try_def io_return_def)

lemma try_methods_first_win:
  assumes "\<forall>n \<in> set before. candidate_fails svc args n"
    and "methods svc name = Some f" and "f args = Inr v" and "truthy v"
  shows "try_methods key svc args (before @ name # rest) =
           (map (Invoke key) (exposed svc before) @ [Invoke key name], Inr (Some v))"
  using assms(1)
proof (induction before)
  case Nil
  show ?case using try_methods_win [OF assms(2-4)] by (simp add: exposed_def)
next
  case (Cons n before)
  then have f: "candidate_fails svc args n"
    and r: "\<forall>n \<in> set before. candidate_fails svc args n"
    by simp_all
  show ?case
    unfolding append_Cons try_methods_skip [OF f] Cons.IH [OF r] by (simp add: exposed_def)
qed


lemma example_report_fails:
  "\<forall>n \<in> set [''generate_report'', ''create_report'', ''build_report'', ''generate_enhanced_report'',
                ''create_enhanced_report''].
     candidate_fails example_report_service args n"
  by (simp add: candidate_fails_def example_report_service_def)

lemma services_example_with_report:
  "services example_with_report ''enhanced_report'' = Some example_report_service"
  by (simp add: example_with_report_def init_def register_def)

section \<open>Input validation\<close>

text \<open>
  C7. A call of \<^verbatim>\<open>execute_synchronized_analysis\<close> with empty request params (any falsy
  \<open>data\<close>) returns \<open>success: False\<close> with a non-empty \<open>error\<close>; it leaves the orchestrator's
  state as it was, so no session entry is created, and it causes no event: no phase
  runs, no collaborator and no callback is invoked.
\<close>

theorem empty_params_fail_fast:
  assumes "\<not> truthy data"
  shows "fst (execute_synchronized_analysis st env data session_id cb) = st
       \<and> fst (snd (execute_synchronized_analysis st env data session_id cb)) = []
       \<and> py_field (snd (snd (execute_synchronized_analysis st env data session_id cb))) ''success''
           = Some (PBool False)
       \<and> (\<exists>msg. msg \<noteq> [] \<and>
            py_field (snd (snd (execute_synchronized_analysis st env data session_id cb))) ''error''
              = Some (PStr msg))"
  using assms by (simp add: execute_synchronized_analysis_def)

theorem empty_params_fail_fast_witness:
  "\<not> truthy (PDict [])
   \<and> fst (execute_synchronized_analysis (init Map.empty) example_env (PDict []) ''s1''
            (Some raising_callback)) = init Map.empty
   \<and> fst (snd (execute_synchronized_analysis (init Map.empty) example_env (PDict []) ''s1''
                 (Some raising_callback))) = []
   \<and> py_field (snd (snd (execute_synchronized_analysis (init Map.empty) example_env (PDict []) ''s1''
                            (Some raising_callback)))) ''success'' = Some (PBool False)"
  using empty_params_fail_fast [of "PDict []" "init Map.empty" example_env "''s1''" "Some raising_callback"]
  by simp

section \<open>Progress queries\<close>



section \<open>A second run under a running session id\<close>

text \<open>
  C4, as the code has it. Beginning a run under a session id whose entry is still
  \<open>running\<close> does not fail: the orchestrator has no check for an existing entry and no
  \<open>DuplicateSessionError\<close>. The run replaces the entry by a fresh one and proceeds as a
  run under an unused id does: state, events and result are the same, and the entry's
  start time is the start of the second run.
\<close>

theorem duplicate_session_overwrites:
  assumes "truthy data"
  shows "execute_synchronized_analysis
           (st\<lparr>execution_state := (execution_state st)(session_id \<mapsto> s)\<rparr>) env data session_id cb
         = execute_synchronized_analysis
             (st\<lparr>execution_state := (execution_state st)(session_id := None)\<rparr>) env data session_id cb
       \<and> map_option start_time
             (execution_state
                (fst (execute_synchronized_analysis
                        (st\<lparr>execution_state := (execution_state st)(session_id \<mapsto> s)\<rparr>)
                        env data session_id cb)) session_id)
           = Some (time_start env)"
proof -
  have "execute_synchronized_analysis
           (st\<lparr>execution_state := (execution_state st)(session_id \<mapsto> s)\<rparr>) env data session_id cb
         = execute_synchronized_analysis
             (st\<lparr>execution_state := (execution_state st)(session_id := None)\<rparr>) env data session_id cb"
    using assms
    by (simp add: execute_synchronized_analysis_def Let_def cong: prod.case_cong sum.case_cong)
  moreover have "map_option start_time
             (execution_state
                (fst (execute_synchronized_analysis
                        (st\<lparr>execution_state := (execution_state st)(session_id \<mapsto> s)\<rparr>)
                        env data session_id cb)) session_id)
           = Some (time_start env)"
    using execute_session_entry [OF assms, of "st\<lparr>execution_state := (execution_state st)(session_id \<mapsto> s)\<rparr>" env session_id cb]
    by (auto simp: new_session_def)
  ultimately show ?thesis by blast
qed

theorem duplicate_session_overwrites_witness:
  "truthy example_data
   \<and> execute_synchronized_analysis
        ((init Map.empty)\<lparr>execution_state := (execution_state (init Map.empty))(''s1'' \<mapsto> new_session 100)\<rparr>)
        example_env_later example_data ''s1'' None
     = execute_synchronized_analysis
        ((init Map.empty)\<lparr>execution_state := (execution_state (init Map.empty))(''s1'' := None)\<rparr>)
        example_env_later example_data ''s1'' None
   \<and> map_option start_time
        (execution_state
           (fst (execute_synchronized_analysis
                   ((init Map.empty)\<lparr>execution_state := (execution_state (init Map.empty))(''s1'' \<mapsto> new_session 100)\<rparr>)
                   example_env_later example_data ''s1'' None)) ''s1'')
       = Some 200"
proof -
  have t: "time_start example_env_later = 200"
    by (simp add: example_env_later_def)
  note w = duplicate_session_overwrites [OF truthy_example_data, of "init Map.empty" "''s1''"
      "new_session 100" example_env_later None, unfolded t]
  from w truthy_example_data show ?thesis by blast
qed

text \<open>
  The claim as it is written fails while the run of session \<open>s1\<close> begun at clock reading
  100 is still running: a second call under \<open>s1\<close> at clock reading 200 returns
  \<open>success: True\<close> with no \<open>error\<close> entry, and the session's entry then starts at 200.
\<close>

theorem duplicate_session_counterexample:
  "map_option status (execution_state example_running ''s1'') = Some ''running''
   \<and> py_field (snd (snd (execute_synchronized_analysis example_running example_env_later
                           example_data ''s1'' None))) ''success'' = Some (PBool True)
   \<and> py_field (snd (snd (execute_synchronized_analysis example_running example_env_later
                           example_data ''s1'' None))) ''error'' = None
   \<and> map_option start_time
        (execution_state (fst (execute_synchronized_analysis example_running example_env_later
                                 example_data ''s1'' None)) ''s1'') = Some 200"
proof -
  have s: "services example_running = Map.empty"
    by (simp add: example_running_def session_begun_def services_init_empty)
  have e: "enhanced_search_coordinator example_env_later = None"
    by (simp add: example_env_later_def example_env_def)
  show ?thesis
    by (simp add: execute_all_absent [OF s e])
       (simp add: example_running_def session_begun_def new_session_def example_env_later_def)
qed

section \<open>Absent collaborators\<close>

text \<open>
  C9, as the code has it. A phase whose collaborator is absent from the services map
  returns a fixed output that depends on no input and causes no event, so two calls
  with identical inputs return identical outputs. Its status is \<open>unavailable\<close> for the
  social analysis only; the mental drivers, visual proofs, anti-objection, pre-pitch
  and future predictions phases return status \<open>fallback\<close>, and so does the web research
  (for request params that are a dict) when the web crawler and the module-level
  search coordinator are both absent.
\<close>

theorem absent_collaborator_fallbacks:
  "(services st ''supadata'' = None \<longrightarrow>
      execute_real_social_analysis st env data session_id =
        ([], PDict [(''status'', PStr ''unavailable''), (''total_posts'', PInt 0)]))
   \<and> (services st ''mental_drivers'' = None \<longrightarrow>
      execute_real_mental_drivers st avatar_data web_data data session_id =
        ([], PDict [(''status'', PStr ''fallback''), (''drivers_customizados'', PList [])]))
   \<and> (services st ''visual_proofs'' = None \<longrightarrow>
      execute_real_visual_proofs st env drivers_data data session_id =
        ([], PDict [(''status'', PStr ''fallback''), (''proofs'', PList [])]))
   \<and> (services st ''anti_objection'' = None \<longrightarrow>
      execute_real_anti_objection st env drivers_data avatar_data data session_id =
        ([], PDict [(''status'', PStr ''fallback''), (''sistema_anti_objecao'', PDict [])]))
   \<and> (services st ''pre_pitch'' = None \<longrightarrow>
      execute_real_pre_pitch st drivers_data anti_objection_data data session_id =
        ([], PDict [(''status'', PStr ''fallback''), (''sequencias_pre_pitch'', PList [])]))
   \<and> (services st ''future_prediction'' = None \<longrightarrow>
      execute_real_future_predictions st web_data social_data session_id =
        ([], PDict [(''status'', PStr ''fallback''), (''predicoes'', PList [])]))
   \<and> (services st ''websailor'' = None \<and> enhanced_search_coordinator env = None \<longrightarrow>
      execute_real_web_search st env (PDict params) session_id =
        ([], PDict [(''status'', PStr ''fallback''), (''processed_results'', PList []),
                    (''source'', PStr ''fallback_basic'')]))"
  by (simp add: social_absent drivers_absent visual_absent anti_objection_absent pre_pitch_absent
      predictions_absent web_search_absent)

theorem absent_collaborator_fallbacks_witness:
  "services (init Map.empty) ''supadata'' = None
   \<and> execute_real_social_analysis (init Map.empty) example_env example_data ''s1'' =
        ([], PDict [(''status'', PStr ''unavailable''), (''total_posts'', PInt 0)])
   \<and> services (init Map.empty) ''mental_drivers'' = None
   \<and> execute_real_mental_drivers (init Map.empty) PNone PNone example_data ''s1'' =
        ([], PDict [(''status'', PStr ''fallback''), (''drivers_customizados'', PList [])])
   \<and> services (init Map.empty) ''visual_proofs'' = None
   \<and> execute_real_visual_proofs (init Map.empty) example_env PNone example_data ''s1'' =
        ([], PDict [(''status'', PStr ''fallback''), (''proofs'', PList [])])
   \<and> services (init Map.empty) ''anti_objection'' = None
   \<and> execute_real_anti_objection (init Map.empty) example_env PNone PNone example_data ''s1'' =
        ([], PDict [(''status'', PStr ''fallback''), (''sistema_anti_objecao'', PDict [])])
   \<and> services (init Map.empty) ''pre_pitch'' = None
   \<and> execute_real_pre_pitch (init Map.empty) PNone PNone example_data ''s1'' =
        ([], PDict [(''status'', PStr ''fallback''), (''sequencias_pre_pitch'', PList [])])
   \<and> services (init Map.empty) ''future_prediction'' = None
   \<and> execute_real_future_predictions (init Map.empty) PNone PNone ''s1'' =
        ([], PDict [(''status'', PStr ''fallback''), (''predicoes'', PList [])])
   \<and> services (init Map.empty) ''websailor'' = None
   \<and> enhanced_search_coordinator example_env = None
   \<and> execute_real_web_search (init Map.empty) example_env (PDict [(''query'', PStr ''apps'')]) ''s1'' =
        ([], PDict [(''status'', PStr ''fallback''), (''processed_results'', PList []),
                    (''source'', PStr ''fallback_basic'')])"
  using absent_collaborator_fallbacks [where st = "init Map.empty" and env = example_env
      and data = example_data and session_id = "''s1''" and avatar_data = PNone and web_data = PNone
      and drivers_data = PNone and anti_objection_data = PNone and social_data = PNone
      and params = "[(''query'', PStr ''apps'')]"]
  by (simp add: services_init_empty example_env_def)

text \<open>
  The claim as it is written fails for the mental drivers phase: with its collaborator
  absent, the status of its output is \<open>fallback\<close>, not \<open>unavailable\<close>.
\<close>

theorem absent_collaborator_counterexample:
  "services (init Map.empty) ''mental_drivers'' = None
   \<and> py_field (snd (execute_real_mental_drivers (init Map.empty) PNone PNone example_data ''s1''))
        ''status'' = Some (PStr ''fallback'')
   \<and> py_field (snd (execute_real_mental_drivers (init Map.empty) PNone PNone example_data ''s1''))
        ''status'' \<noteq> Some (PStr ''unavailable'')"
  by (simp add: services_init_empty drivers_absent)

section \<open>The run with every collaborator absent\<close>

text \<open>
  C2, as the code has it. With an empty services map and no search coordinator, the
  run with request params \<open>{segmento: fitness, produto: app}\<close> returns \<open>success: True\<close>.
  In the consolidated record, the web research and the mental drivers, visual proofs,
  anti-objection, pre-pitch and future predictions phases have status \<open>fallback\<close> and the
  social analysis has status \<open>unavailable\<close>; the avatar, competition, insights, keywords
  and sales funnel phases use no collaborator and have status \<open>success\<close>. The report is
  the basic one, and its \<open>dados_coletados\<close> summary counts no web source, no social post,
  no driver, no visual proof and no anti-objection system. The phase outputs are not
  part of what the caller gets: the result and the report have the entries listed, and
  the report names the components without their status.
\<close>

theorem all_collaborators_absent_run:
  assumes "services st = Map.empty" and "enhanced_search_coordinator env = None"
  shows "\<exists>record report.
           snd (run_phases st env example_data session_id None) = Inr record
         \<and> map (phase_status record) phase_keys =
             [Some (PStr ''fallback''), Some (PStr ''unavailable''), Some (PStr ''success''),
              Some (PStr ''fallback''), Some (PStr ''fallback''), Some (PStr ''fallback''),
              Some (PStr ''fallback''), Some (PStr ''fallback''), Some (PStr ''success''),
              Some (PStr ''success''), Some (PStr ''success''), Some (PStr ''success'')]
         \<and> py_field (snd (snd (execute_synchronized_analysis st env example_data session_id None)))
              ''success'' = Some (PBool True)
         \<and> py_field (snd (snd (execute_synchronized_analysis st env example_data session_id None)))
              ''report'' = Some report
         \<and> py_field report ''status'' = Some (PStr ''basic'')
         \<and> py_field report ''dados_coletados'' =
              Some (PDict [(''web_sources'', PInt 0),
                           (''social_posts'', PInt 0),
                           (''avatar_criado'', PBool True),
                           (''drivers_gerados'', PInt 0),
                           (''provas_visuais'', PInt 0),
                           (''sistema_anti_objecao'', PBool False),
                           (''funil_otimizado'', PBool True)])
         \<and> py_field_names (snd (snd (execute_synchronized_analysis st env example_data session_id None)))
             = [''success'', ''session_id'', ''execution_time'', ''total_components_executed'',
                ''report'', ''data_validation'', ''sync_status'']
         \<and> py_field_names report
             = [''status'', ''session_id'', ''timestamp'', ''resumo_executivo'',
                ''componentes_analisados'', ''dados_coletados'', ''report_generator'']"
  by (simp add: run_phases_all_absent [OF assms] execute_all_absent [OF assms]
      phase_status_def phase_keys_def)

theorem all_collaborators_absent_run_witness:
  "services (init Map.empty) = Map.empty
   \<and> enhanced_search_coordinator example_env = None
   \<and> (\<exists>record report.
           snd (run_phases (init Map.empty) example_env example_data ''s1'' None) = Inr record
         \<and> map (phase_status record) phase_keys =
             [Some (PStr ''fallback''), Some (PStr ''unavailable''), Some (PStr ''success''),
              Some (PStr ''fallback''), Some (PStr ''fallback''), Some (PStr ''fallback''),
              Some (PStr ''fallback''), Some (PStr ''fallback''), Some (PStr ''success''),
              Some (PStr ''success''), Some (PStr ''success''), Some (PStr ''success'')]
         \<and> py_field (snd (snd (execute_synchronized_analysis (init Map.empty) example_env
                                 example_data ''s1'' None))) ''success'' = Some (PBool True)
         \<and> py_field (snd (snd (execute_synchronized_analysis (init Map.empty) example_env
                                 example_data ''s1'' None))) ''report'' = Some report
         \<and> py_field report ''status'' = Some (PStr ''basic'')
         \<and> py_field report ''dados_coletados'' =
              Some (PDict [(''web_sources'', PInt 0),
                           (''social_posts'', PInt 0),
                           (''avatar_criado'', PBool True),
                           (''drivers_gerados'', PInt 0),
                           (''provas_visuais'', PInt 0),
                           (''sistema_anti_objecao'', PBool False),
                           (''funil_otimizado'', PBool True)])
         \<and> py_field_names (snd (snd (execute_synchronized_analysis (init Map.empty) example_env
                                       example_data ''s1'' None)))
             = [''success'', ''session_id'', ''execution_time'', ''total_components_executed'',
                ''report'', ''data_validation'', ''sync_status'']
         \<and> py_field_names report
             = [''status'', ''session_id'', ''timestamp'', ''resumo_executivo'',
                ''componentes_analisados'', ''dados_coletados'', ''report_generator''])"
proof -
  have e: "enhanced_search_coordinator example_env = None"
    by (simp add: example_env_def)
  from all_collaborators_absent_run [OF services_init_empty e, of "''s1''"] services_init_empty e
  show ?thesis by blast
qed

text \<open>
  The claim as it is written fails at this input: the avatar phase reports status
  \<open>success\<close>, which is neither \<open>unavailable\<close> nor \<open>fallback\<close>, and the \<open>data_validation\<close> block
  of the result reports 12 components with real data, not 0.
\<close>

theorem all_collaborators_absent_counterexample:
  "Option.bind (io_value (run_phases (init Map.empty) example_env example_data ''s1'' None))
     (\<lambda>record. phase_status record ''avatar_ultra_detalhado'') = Some (PStr ''success'')
   \<and> PStr ''success'' \<noteq> PStr ''unavailable'' \<and> PStr ''success'' \<noteq> PStr ''fallback''
   \<and> Option.bind (py_field (snd (snd (execute_synchronized_analysis (init Map.empty) example_env
                                        example_data ''s1'' None))) ''data_validation'')
        (\<lambda>v. py_field v ''components_with_real_data'') = Some (PInt 12)
   \<and> PInt 12 \<noteq> PInt 0"
proof -
  have e: "enhanced_search_coordinator example_env = None"
    by (simp add: example_env_def)
  show ?thesis
    by (simp add: run_phases_all_absent [OF services_init_empty e]
        execute_all_absent [OF services_init_empty e] io_value_def phase_status_def)
qed

section \<open>A progress callback that raises\<close>

text \<open>
  C3, as the code has it. The callback is invoked inside the \<^verbatim>\<open>try\<close> of the run with no
  handler of its own. A callback that returns at each of its thirteen invocations
  leaves the run as it is without a callback: same final state, same result, with
  \<open>success: True\<close>. If the callback raises, the run ends at the first invocation that
  raises: that invocation is the last event of the run, the result is
  \<open>success: False\<close> with the exception's message as \<open>error\<close> and with no report, and the
  session's entry stays as the run created it, \<open>running\<close>.
\<close>

theorem callback_failure_aborts_run:
  assumes "truthy data"
  shows "(first_raise cb progress_calls = None \<longrightarrow>
            fst (execute_synchronized_analysis st env data session_id (Some cb))
              = fst (execute_synchronized_analysis st env data session_id None)
          \<and> snd (snd (execute_synchronized_analysis st env data session_id (Some cb)))
              = snd (snd (execute_synchronized_analysis st env data session_id None))
          \<and> py_field (snd (snd (execute_synchronized_analysis st env data session_id (Some cb))))
              ''success'' = Some (PBool True))
       \<and> (\<forall>i msg e. first_raise cb progress_calls = Some (i, msg, e) \<longrightarrow>
            py_field (snd (snd (execute_synchronized_analysis st env data session_id (Some cb))))
              ''success'' = Some (PBool False)
          \<and> py_field (snd (snd (execute_synchronized_analysis st env data session_id (Some cb))))
              ''error'' = Some (PStr (exn_str e))
          \<and> py_field (snd (snd (execute_synchronized_analysis st env data session_id (Some cb))))
              ''report'' = None
          \<and> last (fst (snd (execute_synchronized_analysis st env data session_id (Some cb))))
              = Progress i msg
          \<and> execution_state (fst (execute_synchronized_analysis st env data session_id (Some cb)))
              session_id = Some (new_session (time_start env)))"
proof -
  have quiet: "fst (execute_synchronized_analysis st env data session_id (Some cb))
              = fst (execute_synchronized_analysis st env data session_id None)
          \<and> snd (snd (execute_synchronized_analysis st env data session_id (Some cb)))
              = snd (snd (execute_synchronized_analysis st env data session_id None))
          \<and> py_field (snd (snd (execute_synchronized_analysis st env data session_id (Some cb))))
              ''success'' = Some (PBool True)"
    if q: "first_raise cb progress_calls = None"
  proof -
    obtain cad where n:
      "snd (run_phases (session_begun st env session_id) env data session_id None) = Inr cad"
      using run_phases_without_callback by blast
    from execute_quiet_callback [OF assms q, of st env session_id]
    show ?thesis by (simp add: execute_completed [OF assms n])
  qed
  have loud: "py_field (snd (snd (execute_synchronized_analysis st env data session_id (Some cb))))
              ''success'' = Some (PBool False)
          \<and> py_field (snd (snd (execute_synchronized_analysis st env data session_id (Some cb))))
              ''error'' = Some (PStr (exn_str e))
          \<and> py_field (snd (snd (execute_synchronized_analysis st env data session_id (Some cb))))
              ''report'' = None
          \<and> last (fst (snd (execute_synchronized_analysis st env data session_id (Some cb))))
              = Progress i msg
          \<and> execution_state (fst (execute_synchronized_analysis st env data session_id (Some cb)))
              session_id = Some (new_session (time_start env))"
    if r: "first_raise cb progress_calls = Some (i, msg, e)" for i msg e
    using execute_raising_callback [OF assms r, of st env session_id]
    by (simp add: session_begun_def)
  from quiet loud show ?thesis by blast
qed

theorem callback_failure_aborts_run_witness:
  "truthy example_data
   \<and> first_raise raising_callback progress_calls =
        Some (1, ''Executando pesquisa web massiva com dados reais...'', OtherError ''boom'')
   \<and> py_field (snd (snd (execute_synchronized_analysis (init Map.empty) example_env example_data
                           ''s1'' (Some raising_callback)))) ''success'' = Some (PBool False)
   \<and> py_field (snd (snd (execute_synchronized_analysis (init Map.empty) example_env example_data
                           ''s1'' (Some raising_callback)))) ''error'' = Some (PStr ''boom'')
   \<and> last (fst (snd (execute_synchronized_analysis (init Map.empty) example_env example_data
                        ''s1'' (Some raising_callback))))
       = Progress 1 ''Executando pesquisa web massiva com dados reais...''
   \<and> first_raise quiet_callback progress_calls = None
   \<and> snd (snd (execute_synchronized_analysis (init Map.empty) example_env example_data ''s1''
                  (Some quiet_callback)))
       = snd (snd (execute_synchronized_analysis (init Map.empty) example_env example_data ''s1'' None))"
proof -
  note loud = callback_failure_aborts_run [OF truthy_example_data, of raising_callback
      "init Map.empty" example_env "''s1''"]
  note quiet = callback_failure_aborts_run [OF truthy_example_data, of quiet_callback
      "init Map.empty" example_env "''s1''"]
  from loud first_raise_raising_callback
  have "py_field (snd (snd (execute_synchronized_analysis (init Map.empty) example_env example_data
                           ''s1'' (Some raising_callback)))) ''success'' = Some (PBool False)
   \<and> py_field (snd (snd (execute_synchronized_analysis (init Map.empty) example_env example_data
                           ''s1'' (Some raising_callback)))) ''error'' = Some (PStr ''boom'')
   \<and> last (fst (snd (execute_synchronized_analysis (init Map.empty) example_env example_data
                        ''s1'' (Some raising_callback))))
       = Progress 1 ''Executando pesquisa web massiva com dados reais...''"
    by simp
  moreover from quiet first_raise_quiet_callback
  have "snd (snd (execute_synchronized_analysis (init Map.empty) example_env example_data ''s1''
                  (Some quiet_callback)))
       = snd (snd (execute_synchronized_analysis (init Map.empty) example_env example_data ''s1'' None))"
    by blast
  ultimately show ?thesis
    using truthy_example_data first_raise_raising_callback first_raise_quiet_callback by blast
qed

text \<open>
  The claim as it is written fails for a callback that raises at its first invocation:
  the run returns \<open>success: False\<close> without a report, while the same run with a callback
  that returns gives \<open>success: True\<close>.
\<close>

theorem callback_failure_counterexample:
  "raising_callback 1 ''Executando pesquisa web massiva com dados reais...'' = Some (OtherError ''boom'')
   \<and> py_field (snd (snd (execute_synchronized_analysis (init Map.empty) example_env example_data
                           ''s1'' (Some raising_callback)))) ''success'' = Some (PBool False)
   \<and> py_field (snd (snd (execute_synchronized_analysis (init Map.empty) example_env example_data
                           ''s1'' (Some raising_callback)))) ''report'' = None
   \<and> py_field (snd (snd (execute_synchronized_analysis (init Map.empty) example_env example_data
                           ''s1'' (Some quiet_callback)))) ''success'' = Some (PBool True)
   \<and> snd (snd (execute_synchronized_analysis (init Map.empty) example_env example_data
                  ''s1'' (Some raising_callback)))
       \<noteq> snd (snd (execute_synchronized_analysis (init Map.empty) example_env example_data
                      ''s1'' (Some quiet_callback)))"
proof -
  have loud: "snd (snd (execute_synchronized_analysis (init Map.empty) example_env example_data
                  ''s1'' (Some raising_callback)))
            = PDict [(''success'', PBool False), (''session_id'', PStr ''s1''),
                     (''error'', PStr ''boom''), (''emergency_mode'', PBool True)]"
    using execute_raising_callback [OF truthy_example_data first_raise_raising_callback,
        of "init Map.empty" example_env "''s1''"]
    by simp
  have quiet: "snd (snd (execute_synchronized_analysis (init Map.empty) example_env example_data
                  ''s1'' (Some quiet_callback)))
            = snd (snd (execute_synchronized_analysis (init Map.empty) example_env example_data
                  ''s1'' None))"
    using execute_quiet_callback [OF truthy_example_data first_raise_quiet_callback] by blast
  show ?thesis
    unfolding quiet loud
    by (simp add: execute_all_absent [OF services_init_empty enhanced_example_env]
        raising_callback_def)
qed

section \<open>The status of a session\<close>



section \<open>The recursion depth map\<close>




section \<open>Failure isolation of the phases\<close>

text \<open>
  C1, as the code has it. Each of the twelve phase functions yields a value and never
  an exception: the \<^verbatim>\<open>try\<close> that spans its body returns an \<open>error\<close> record for whatever is
  raised inside. The web research, social analysis, avatar, competition, insights,
  keywords and sales funnel outputs are always dicts with a \<open>status\<close> entry. The mental
  drivers, visual proofs, anti-objection, pre-pitch and future predictions outputs are
  either such a dict or the truthy value that an operation of the phase's collaborator
  returned, handed on unchanged. Whatever the phases return, a run with non-empty
  request params and no callback executes every phase on the outputs of the phases it
  consumes, builds the report from the consolidated record, marks the session
  \<open>completed\<close> and returns \<open>success: True\<close>.
\<close>

theorem phases_isolate_failures:
  "has_status (snd (execute_real_web_search st env data session_id))
   \<and> has_status (snd (execute_real_social_analysis st env data session_id))
   \<and> has_status (snd (execute_real_avatar_analysis env web_data social_data data session_id))
   \<and> has_status (snd (execute_real_competition_analysis env web_data data session_id))
   \<and> has_status (snd (execute_real_insights_extraction web_data social_data session_id))
   \<and> has_status (snd (execute_real_keywords_analysis web_data avatar_data session_id))
   \<and> has_status (snd (execute_real_sales_funnel drivers_data avatar_data session_id))
   \<and> (has_status (snd (execute_real_mental_drivers st avatar_data web_data data session_id))
       \<or> truthy (snd (execute_real_mental_drivers st avatar_data web_data data session_id))
         \<and> returned_by st ''mental_drivers''
             (snd (execute_real_mental_drivers st avatar_data web_data data session_id)))
   \<and> (has_status (snd (execute_real_visual_proofs st env drivers_data data session_id))
       \<or> truthy (snd (execute_real_visual_proofs st env drivers_data data session_id))
         \<and> returned_by st ''visual_proofs''
             (snd (execute_real_visual_proofs st env drivers_data data session_id)))
   \<and> (has_status (snd (execute_real_anti_objection st env drivers_data avatar_data data session_id))
       \<or> truthy (snd (execute_real_anti_objection st env drivers_data avatar_data data session_id))
         \<and> returned_by st ''anti_objection''
             (snd (execute_real_anti_objection st env drivers_data avatar_data data session_id)))
   \<and> (has_status (snd (execute_real_pre_pitch st drivers_data anti_objection_data data session_id))
       \<or> truthy (snd (execute_real_pre_pitch st drivers_data anti_objection_data data session_id))
         \<and> returned_by st ''pre_pitch''
             (snd (execute_real_pre_pitch st drivers_data anti_objection_data data session_id)))
   \<and> (has_status (snd (execute_real_future_predictions st web_data social_data session_id))
       \<or> truthy (snd (execute_real_future_predictions st web_data social_data session_id))
         \<and> returned_by st ''future_prediction''
             (snd (execute_real_future_predictions st web_data social_data session_id)))
   \<and> (truthy data \<longrightarrow>
         io_value (run_phases (session_begun st env session_id) env data session_id None)
           = Some (chained_record (session_begun st env session_id) env data session_id)
       \<and> py_field (snd (snd (execute_synchronized_analysis st env data session_id None))) ''success''
           = Some (PBool True)
       \<and> py_field (snd (snd (execute_synchronized_analysis st env data session_id None))) ''report''
           = Some (snd (generate_final_report (session_begun st env session_id) env
                          (chained_record (session_begun st env session_id) env data session_id)
                          session_id))
       \<and> map_option status
            (execution_state (fst (execute_synchronized_analysis st env data session_id None)) session_id)
           = Some ''completed'')"
proof -
  have run: "io_value (run_phases (session_begun st env session_id) env data session_id None)
           = Some (chained_record (session_begun st env session_id) env data session_id)"
    by (simp add: io_value_def run_phases_chained)
  show ?thesis
    by (intro conjI impI web_search_has_status social_has_status avatar_has_status
        competition_has_status insights_has_status keywords_has_status funnel_has_status
        drivers_output visual_proofs_output anti_objection_output pre_pitch_output
        predictions_output run)
       (simp_all add: execute_without_callback)
qed

theorem phases_isolate_failures_witness:
  "truthy example_data
   \<and> has_status (snd (execute_real_web_search example_with_drivers example_env example_data ''s1''))
   \<and> (has_status (snd (execute_real_mental_drivers example_with_drivers PNone PNone example_data ''s1''))
       \<or> truthy (snd (execute_real_mental_drivers example_with_drivers PNone PNone example_data ''s1''))
         \<and> returned_by example_with_drivers ''mental_drivers''
             (snd (execute_real_mental_drivers example_with_drivers PNone PNone example_data ''s1'')))
   \<and> has_status (snd (execute_real_sales_funnel PNone PNone ''s1''))
   \<and> py_field (snd (snd (execute_synchronized_analysis example_with_drivers example_env example_data
                           ''s1'' None))) ''success'' = Some (PBool True)
   \<and> map_option status
        (execution_state (fst (execute_synchronized_analysis example_with_drivers example_env
                                 example_data ''s1'' None)) ''s1'') = Some ''completed''
   \<and> execute_real_social_analysis example_with_failing example_env example_data ''s1''
       = ([Invoke ''supadata'' ''search_all_platforms''],
          PDict [(''status'', PStr ''error''), (''total_posts'', PInt 0),
                 (''error'', PStr ''quota exceeded'')])
   \<and> has_status (snd (execute_real_social_analysis example_with_failing example_env example_data ''s1''))
   \<and> py_field (snd (snd (execute_synchronized_analysis example_with_failing example_env example_data
                           ''s1'' None))) ''success'' = Some (PBool True)"
proof -
  note w = phases_isolate_failures [where st = example_with_drivers and env = example_env
      and data = example_data and session_id = "''s1''" and avatar_data = PNone and web_data = PNone
      and drivers_data = PNone]
  note v = phases_isolate_failures [where st = example_with_failing and env = example_env
      and data = example_data and session_id = "''s1''"]
  have s: "services example_with_failing ''supadata'' = Some example_failing_service"
    by (simp add: example_with_failing_def init_def register_def)
  have e: "execute_real_social_analysis example_with_failing example_env example_data ''s1''
       = ([Invoke ''supadata'' ''search_all_platforms''],
          PDict [(''status'', PStr ''error''), (''total_posts'', PInt 0),
                 (''error'', PStr ''quota exceeded'')])"
    by (simp add: execute_real_social_analysis_def s example_data_def call_method_def
        example_failing_service_def io_bind_def io_return_def io_catch_def)
  from w v e truthy_example_data show ?thesis by blast
qed

text \<open>
  The claim as it is written fails for a mental drivers architect whose result is a
  non-empty dict without a \<open>status\<close> entry: the phase returns that dict.
\<close>

theorem phases_isolate_failures_counterexample:
  "snd (execute_real_mental_drivers example_with_drivers PNone PNone example_data ''s1'')
     = PDict [(''drivers_customizados'', PList [PStr ''urgencia''])]
   \<and> py_field (snd (execute_real_mental_drivers example_with_drivers PNone PNone example_data ''s1''))
       ''status'' = None
   \<and> \<not> has_status (snd (execute_real_mental_drivers example_with_drivers PNone PNone example_data ''s1''))"
  by (simp add: drivers_example_output has_status_def)

section \<open>Candidate operations of the visual proofs phase\<close>

text \<open>
  C6 at a visual proofs generator whose first candidate \<open>generate_visual_proofs\<close> returns
  an empty dict and whose second candidate \<open>create_proofs\<close> returns a non-empty result.
  The loop of the visual proofs phase ends at the first candidate that returns, so the
  phase invokes \<open>generate_visual_proofs\<close> only and returns its fallback; the loop that the
  anti-objection phase and the final report use goes on to \<open>create_proofs\<close> for the same
  collaborator, candidates and arguments, and returns its result.
\<close>

theorem visual_proofs_stops_at_first_return:
  "execute_real_visual_proofs example_with_visual example_env PNone example_data ''s1'' =
     ([Invoke ''visual_proofs'' ''generate_visual_proofs''],
      PDict [(''status'', PStr ''fallback''),
             (''proofs'',
                PList [PDict [(''tipo'', PStr ''estatistica''),
                              (''titulo'', PStr ''Dados sobre fitness''),
                              (''descricao'',
                                 PStr (''An'' @ a_acute # ''lise baseada nos drivers para app'')),
                              (''fonte'', PStr (''An'' @ a_acute # ''lise pr'' @ o_acute # ''pria''))]])])
   \<and> try_methods ''visual_proofs'' example_visual_service
        [PNone, PStr ''fitness'', PStr ''app'', PStr ''s1''] visual_proofs_methods =
     ([Invoke ''visual_proofs'' ''generate_visual_proofs'', Invoke ''visual_proofs'' ''create_proofs''],
      Inr (Some (PDict [(''status'', PStr ''success''), (''proofs'', PList [PStr ''grafico''])])))"
  by (simp add: execute_real_visual_proofs_def services_example_with_visual example_data_def
      visual_proofs_methods_def example_visual_service_def call_method_def py_str_def
      io_bind_def io_return_def io_catch_def io_try_def)

section \<open>Candidate operations with a result check, in order\<close>

text \<open>
  X1. The loop of the anti-objection phase and of the final report. When every candidate
  of a list fails (it is not exposed, it raises, or it returns a falsy value), the loop
  invokes the exposed ones in order and ends without a result. When a candidate that
  returns a truthy value follows them, the loop invokes the exposed ones before it in
  order, then that candidate, returns its value, and invokes none of the candidates
  after it.
\<close>

theorem checked_resolution_order:
  assumes "\<forall>n \<in> set before. candidate_fails svc args n"
  shows "try_methods key svc args before = (map (Invoke key) (exposed svc before), Inr None)
       \<and> (\<forall>name f v rest. methods svc name = Some f \<and> f args = Inr v \<and> truthy v \<longrightarrow>
            try_methods key svc args (before @ name # rest) =
              (map (Invoke key) (exposed svc before) @ [Invoke key name], Inr (Some v)))"
  using try_methods_all_fail [OF assms] try_methods_first_win [OF assms] by blast

theorem checked_resolution_order_witness:
  "try_methods ''enhanced_report'' example_report_service [PDict [], PStr ''s1'']
     ([''generate_report'', ''create_report'', ''build_report'', ''generate_enhanced_report'',
       ''create_enhanced_report''] @ ''process_report'' # [''compile_report'']) =
     ([Invoke ''enhanced_report'' ''generate_report'', Invoke ''enhanced_report'' ''build_report'',
       Invoke ''enhanced_report'' ''process_report''],
      Inr (Some (PDict [(''titulo'', PStr ''Relatorio'')])))"
proof -
  have m: "methods example_report_service ''process_report''
             = Some (\<lambda>args. Inr (PDict [(''titulo'', PStr ''Relatorio'')]))"
    by (simp add: example_report_service_def)
  have e: "exposed example_report_service
             [''generate_report'', ''create_report'', ''build_report'', ''generate_enhanced_report'',
              ''create_enhanced_report''] = [''generate_report'', ''build_report'']"
    by (simp add: exposed_def example_report_service_def)
  note w = checked_resolution_order [OF example_report_fails,
      where args = "[PDict [], PStr ''s1'']" and key = "''enhanced_report''",
      THEN conjunct2, rule_format,
      where name = "''process_report''"
        and f = "\<lambda>args. Inr (PDict [(''titulo'', PStr ''Relatorio'')])"
        and v = "PDict [(''titulo'', PStr ''Relatorio'')]" and rest = "[''compile_report'']"]
  from w m show ?thesis by (simp add: e)
qed

text \<open>
  X2. The final report with a report generator present: when the candidates before an
  operation fail and that operation returns a truthy value, the report is that value,
  the exposed candidates before it and the operation itself are invoked in order, and
  no candidate after it is invoked.
\<close>

theorem final_report_first_truthy_wins:
  assumes "services st ''enhanced_report'' = Some svc"
    and "report_methods = before @ name # rest"
    and "\<forall>n \<in> set before. candidate_fails svc [complete_analysis_data, PStr session_id] n"
    and "methods svc name = Some f"
    and "f [complete_analysis_data, PStr session_id] = Inr v"
    and "truthy v"
  shows "generate_final_report st env complete_analysis_data session_id =
           (map (Invoke ''enhanced_report'') (exposed svc before) @ [Invoke ''enhanced_report'' name], v)"
  unfolding generate_final_report_def assms(1) assms(2) option.case
    try_methods_first_win [OF assms(3-6)]
  by (simp add: io_bind_def io_return_def io_catch_def)

theorem final_report_first_truthy_wins_witness:
  "generate_final_report example_with_report example_env (PDict []) ''s1'' =
     ([Invoke ''enhanced_report'' ''generate_report'', Invoke ''enhanced_report'' ''build_report'',
       Invoke ''enhanced_report'' ''process_report''],
      PDict [(''titulo'', PStr ''Relatorio'')])"
proof -
  have m: "methods example_report_service ''process_report''
             = Some (\<lambda>args. Inr (PDict [(''titulo'', PStr ''Relatorio'')]))"
    by (simp add: example_report_service_def)
  have e: "exposed example_report_service
             [''generate_report'', ''create_report'', ''build_report'', ''generate_enhanced_report'',
              ''create_enhanced_report''] = [''generate_report'', ''build_report'']"
    by (simp add: exposed_def example_report_service_def)
  have r: "report_methods =
             [''generate_report'', ''create_report'', ''build_report'', ''generate_enhanced_report'',
              ''create_enhanced_report''] @ ''process_report'' # [''compile_report'']"
    by (simp add: report_methods_def)
  have t: "truthy (PDict [(''titulo'', PStr ''Relatorio'')])" by simp
  from final_report_first_truthy_wins [OF services_example_with_report r example_report_fails m refl t,
      of example_env]
  show ?thesis by (simp add: e)
qed

end
